theory Spec2Isabelle
  imports Main "HOL-Library.Word" "HOL-Library.AList" "HOL-Library.Sublist"
begin

section \<open>Strings\<close>

text \<open>
  The extension is TypeScript: a string is a sequence of UTF-16 code units, and
  \<^verbatim>\<open>length\<close> and \<^verbatim>\<open>slice\<close> count code units. A string is modelled as
  a list of 16-bit words. \<open>js\<close> embeds an ASCII literal; characters outside ASCII
  (the em dash of thread names, the emoji of reactions) are written as their code units.
\<close>

type_synonym jstring = "16 word list"

definition js :: "string \<Rightarrow> jstring" where
  "js s = map (\<lambda>c. word_of_nat (of_char c)) s"

text \<open>JavaScript truthiness of a string: the empty string is falsy.\<close>

definition truthy :: "jstring \<Rightarrow> bool" where
  "truthy s = (s \<noteq> [])"

text \<open>Truthiness of \<^verbatim>\<open>string | null | undefined\<close>.\<close>

definition truthy_opt :: "jstring option \<Rightarrow> bool" where
  "truthy_opt v = (case v of None \<Rightarrow> False | Some s \<Rightarrow> truthy s)"

text \<open>
  \<^verbatim>\<open>text.slice(0, e)\<close>: a negative end counts from the end of the string and is
  clipped at 0, an end beyond the length is clipped at the length.
\<close>

definition slice0 :: "jstring \<Rightarrow> int \<Rightarrow> jstring" where
  "slice0 text e =
     (if e < 0 then take (nat (max (int (length text) + e) 0)) text
      else take (nat e) text)"

text \<open>The white space and line terminators that \<^verbatim>\<open>trim\<close> removes.\<close>

definition is_js_space :: "16 word \<Rightarrow> bool" where
  "is_js_space c =
     ((0x09 \<le> c \<and> c \<le> 0x0D) \<or> c = 0x20 \<or> c = 0xA0 \<or> c = 0x1680
      \<or> (0x2000 \<le> c \<and> c \<le> 0x200A) \<or> c = 0x2028 \<or> c = 0x2029 \<or> c = 0x202F
      \<or> c = 0x205F \<or> c = 0x3000 \<or> c = 0xFEFF)"

definition js_trim :: "jstring \<Rightarrow> jstring" where
  "js_trim s = rev (dropWhile is_js_space (rev (dropWhile is_js_space s)))"

definition ellipsis :: jstring where
  "ellipsis = js ''...''"

text \<open>
  \<^verbatim>\<open>
  function truncateText(text: string, maxLen: number): string {
    if (text.length <= maxLen) return text;
    return text.slice(0, maxLen - 3) + "...";
  }
  \<close>
\<close>

definition truncateText :: "jstring \<Rightarrow> int \<Rightarrow> jstring" where
  "truncateText text maxLen =
     (if int (length text) \<le> maxLen then text
      else slice0 text (maxLen - 3) @ ellipsis)"

text \<open>The separator \<^verbatim>\<open>" \<emdash> "\<close> of thread names: space, U+2014, space.\<close>

definition dash_sep :: jstring where
  "dash_sep = [0x20, 0x2014, 0x20]"

text \<open>
  The context handed to the handlers by the host. \<open>project\<close> is
  \<^verbatim>\<open>path.basename(ctx.cwd)\<close>, computed by the Node library, and
  \<open>sessionFile\<close> is \<^verbatim>\<open>ctx.sessionManager.getSessionFile()\<close>.
\<close>

record ctx =
  cwd :: jstring
  project :: jstring
  sessionFile :: "jstring option"

text \<open>
  \<^verbatim>\<open>makeThreadName(ctx)\<close>; the second argument is \<^verbatim>\<open>pi.getSessionName()\<close>.
\<close>

definition makeThreadName :: "ctx \<Rightarrow> jstring option \<Rightarrow> jstring" where
  "makeThreadName c sessionName =
     (if truthy_opt sessionName
      then truncateText (project c @ dash_sep @ the sessionName) 100
      else truncateText (project c @ dash_sep @ js ''new session'') 100)"

text \<open>
  The name given to \<^verbatim>\<open>setName\<close> by \<^verbatim>\<open>renameCurrentThread(name)\<close>, and the
  full name built by the rename paths (\<^verbatim>\<open>/discord-rename\<close> and the automatic rename).
\<close>

definition renamedThreadName :: "jstring \<Rightarrow> jstring" where
  "renamedThreadName name = truncateText name 100"

definition fullThreadName :: "ctx \<Rightarrow> jstring \<Rightarrow> jstring" where
  "fullThreadName c name = truncateText (project c @ dash_sep @ name) 100"

text \<open>The body of the plain-text mirror of the agent's last response.\<close>

definition mirrorContent :: "jstring \<Rightarrow> jstring" where
  "mirrorContent lastMessage = truncateText lastMessage 1900"

text \<open>What a truncation to \<open>n\<close> code units guarantees.\<close>

definition truncated_to :: "nat \<Rightarrow> jstring \<Rightarrow> jstring \<Rightarrow> bool" where
  "truncated_to n text r =
     (length r \<le> n \<and>
      (if length text \<le> n then r = text
       else r = take (n - 3) text @ ellipsis \<and> prefix (take (n - 3) text) text))"

section \<open>Data model\<close>

text \<open>
  \<^verbatim>\<open>interface DiscordConfig\<close>, the content of \<^verbatim>\<open>discord-notify.json\<close>.
\<close>

record DiscordConfig =
  channelId :: jstring
  enabled :: bool
  minDurationMs :: int
  includePreview :: bool

text \<open>
  \<^verbatim>\<open>interface ThreadMap\<close>: a JavaScript object from session file to thread id.
  Its string keys keep their insertion order (which \<^verbatim>\<open>Object.entries\<close> follows): an
  association list in that order, read with \<open>map_of\<close>, assigned with \<open>js_assign\<close>
  (below) and deleted from with \<open>AList.delete\<close>.
\<close>

type_synonym ThreadMap = "(jstring \<times> jstring) list"

text \<open>
  The order of the keys of a JavaScript object: the keys that are array indices (the
  canonical decimal text of a number below \<open>2\<^sup>3\<^sup>2 - 1\<close>) come first, in ascending
  numeric order, then the other strings in insertion order. \<open>js_assign\<close> is the
  assignment \<^verbatim>\<open>obj[k] = v\<close>: an existing key keeps its place, a new array index is
  put in its numeric place, any other new key goes last.
\<close>

definition is_digit :: "16 word \<Rightarrow> bool" where
  "is_digit c = (0x30 \<le> c \<and> c \<le> 0x39)"

definition decimal_value :: "jstring \<Rightarrow> nat" where
  "decimal_value k = foldl (\<lambda>n c. 10 * n + (unat c - 48)) 0 k"

definition array_index :: "jstring \<Rightarrow> nat option" where
  "array_index k =
     (if k \<noteq> [] \<and> list_all is_digit k \<and> (length k = 1 \<or> hd k \<noteq> 0x30)
         \<and> decimal_value k < 4294967295
      then Some (decimal_value k) else None)"

fun insert_indexed :: "nat \<Rightarrow> jstring \<Rightarrow> jstring \<Rightarrow> ThreadMap \<Rightarrow> ThreadMap" where
  "insert_indexed n k v [] = [(k, v)]"
| "insert_indexed n k v (e # al) =
     (case array_index (fst e) of
        Some n' \<Rightarrow> if n' < n then e # insert_indexed n k v al else (k, v) # e # al
      | None \<Rightarrow> (k, v) # e # al)"

definition js_assign :: "jstring \<Rightarrow> jstring \<Rightarrow> ThreadMap \<Rightarrow> ThreadMap" where
  "js_assign k v al =
     (if map_of al k \<noteq> None then AList.update k v al
      else case array_index k of
             None \<Rightarrow> al @ [(k, v)]
           | Some n \<Rightarrow> insert_indexed n k v al)"

text \<open>
  \<^verbatim>\<open>Set<string>\<close> of muted thread ids, in insertion order (the order in which
  \<^verbatim>\<open>saveMuted\<close> writes it).
\<close>

definition set_add :: "jstring \<Rightarrow> jstring list \<Rightarrow> jstring list" where
  "set_add x xs = (if x \<in> set xs then xs else xs @ [x])"

definition set_delete :: "jstring \<Rightarrow> jstring list \<Rightarrow> jstring list" where
  "set_delete x xs = filter (\<lambda>y. y \<noteq> x) xs"

text \<open>An embed; the colour and the timestamp are left out.\<close>

record embed =
  e_title :: jstring
  e_description :: "jstring option"
  e_fields :: "(jstring \<times> jstring) list"
  e_footer :: "jstring option"

datatype payload = Content jstring | Embeds embed | WithFile jstring jstring

text \<open>What \<^verbatim>\<open>pi.sendUserMessage\<close> is given, and how.\<close>

datatype part = TextPart jstring | ImagePart jstring jstring

datatype user_content = Plain jstring | Parts "part list"

datatype delivery = Immediate | FollowUp

text \<open>
  Every call that leaves the process, in the order the code makes it: writes of the
  three files, calls of the chat library, calls of the host. A call is recorded when it
  is made; whether it then fails is an input of the handler that makes it.
  \<open>ConsoleError\<close> is a \<^verbatim>\<open>console.error\<close> of a \<^verbatim>\<open>catch\<close>, with the
  fixed part of its text.
\<close>

datatype effect =
    SaveConfig DiscordConfig
  | SaveThreads ThreadMap
  | SaveMuted "jstring list"
  | NewClient
  | Login jstring
  | Destroy
  | FetchChannel jstring
  | FetchReaction
  | SetArchived jstring bool
  | SetName jstring jstring
  | CreateForumThread jstring jstring payload
  | CreateTextThread jstring jstring
  | Send jstring payload
  | Reply jstring jstring
  | React jstring jstring
  | DeleteThread jstring
  | Sleep nat
  | SendUserMessage user_content delivery
  | UiNotify jstring jstring
  | CompleteSimple jstring
  | HttpGet jstring
  | ConsoleError jstring

datatype client_handle = Client

text \<open>
  The variables of the extension closure, the three files and the log of calls.
  \<open>threads_file\<close> and \<open>muted_file\<close> are the last content written to
  \<^verbatim>\<open>discord-threads.json\<close> and \<^verbatim>\<open>discord-muted.json\<close> (\<open>None\<close>: as found
  at start).
\<close>

record ext_state =
  config :: "DiscordConfig option"
  threads :: ThreadMap
  mutedThreads :: "jstring list"
  agentStartTime :: int
  client :: "client_handle option"
  botUserId :: "jstring option"
  isForum :: bool
  isAgentBusy :: bool
  lastKnownSessionName :: "jstring option"
  threadAutoNamed :: bool
  watchedThreads :: "jstring \<rightharpoonup> jstring"
  currentSessionFile :: "jstring option"
  threads_file :: "ThreadMap option"
  muted_file :: "jstring list option"
  effects :: "effect list"

definition emit :: "effect \<Rightarrow> ext_state \<Rightarrow> ext_state" where
  "emit e s = s\<lparr>effects := effects s @ [e]\<rparr>"

text \<open>
  \<^verbatim>\<open>saveThreads(threads)\<close> and \<^verbatim>\<open>saveMuted(mutedThreads)\<close>: whole-file
  overwrites with the current value of the variable.
\<close>

definition saveThreads :: "ext_state \<Rightarrow> ext_state" where
  "saveThreads s = emit (SaveThreads (threads s)) (s\<lparr>threads_file := Some (threads s)\<rparr>)"

definition saveMuted :: "ext_state \<Rightarrow> ext_state" where
  "saveMuted s = emit (SaveMuted (mutedThreads s)) (s\<lparr>muted_file := Some (mutedThreads s)\<rparr>)"

section \<open>Thread resolution\<close>

text \<open>
  What the chat platform answers during one call of \<^verbatim>\<open>getOrCreateThread\<close>:
  the fetch of the bound thread (it throws, or yields nothing, a channel that is not a
  thread, or the thread with its archived flag), whether un-archiving succeeds, the
  fetch of the configured channel, the id of the thread the platform creates
  (\<open>None\<close>: the creation throws) and whether the first send into a new text-channel
  thread succeeds.
\<close>

datatype fetched = FetchThrows | FetchNull | FetchNotThread | FetchThread bool

datatype channel_kind = ChannelThrows | ChannelNull | GuildForum | GuildText | OtherChannel

record resolve_env =
  fetch_existing :: fetched
  unarchive_ok :: bool
  fetch_channel :: channel_kind
  created :: "jstring option"
  first_send_ok :: bool

text \<open>
  The \<^verbatim>\<open>catch\<close> of the lookup of the bound thread:
  \<^verbatim>\<open>
  if (sessionKey) {
    delete threads[sessionKey];
    watchedThreads.delete(existingThreadId);
    saveThreads(threads);
  }
  \<close>
\<close>

definition evictBinding :: "ext_state \<Rightarrow> jstring option \<Rightarrow> jstring \<Rightarrow> ext_state" where
  "evictBinding s sessionKey existingThreadId =
     (if truthy_opt sessionKey
      then saveThreads
             (s\<lparr>threads := AList.delete (the sessionKey) (threads s),
                watchedThreads := (watchedThreads s)(existingThreadId := None)\<rparr>)
      else s)"

text \<open>
  The \<^verbatim>\<open>try\<close> over the bound thread. \<open>Some\<close>: the thread is returned;
  \<open>None\<close>: control falls through to the creation.
\<close>

definition tryExistingThread ::
  "ext_state \<Rightarrow> jstring option \<Rightarrow> jstring \<Rightarrow> resolve_env \<Rightarrow> jstring option \<times> ext_state" where
  "tryExistingThread s sessionKey existingThreadId w =
     (let s1 = emit (FetchChannel existingThreadId) s in
      case fetch_existing w of
        FetchThrows \<Rightarrow> (None, evictBinding s1 sessionKey existingThreadId)
      | FetchNull \<Rightarrow> (None, s1)
      | FetchNotThread \<Rightarrow> (None, s1)
      | FetchThread archived \<Rightarrow>
          (if archived
           then (let s2 = emit (SetArchived existingThreadId False) s1 in
                 if unarchive_ok w then (Some existingThreadId, s2)
                 else (None, evictBinding s2 sessionKey existingThreadId))
           else (Some existingThreadId, s1)))"

text \<open>
  After a creation:
  \<^verbatim>\<open>
  if (sessionKey) {
    threads[sessionKey] = thread.id;
    watchedThreads.set(thread.id, sessionKey);
    saveThreads(threads);
  }
  return thread;
  \<close>
\<close>

definition recordBinding :: "ext_state \<Rightarrow> jstring option \<Rightarrow> jstring \<Rightarrow> ext_state" where
  "recordBinding s sessionKey threadId =
     (if truthy_opt sessionKey
      then saveThreads
             (s\<lparr>threads := js_assign (the sessionKey) threadId (threads s),
                watchedThreads := (watchedThreads s)(threadId \<mapsto> the sessionKey)\<rparr>)
      else s)"

definition sessionStartedMessage :: "jstring \<Rightarrow> jstring" where
  "sessionStartedMessage threadName =
     [0xD83E, 0xDD16] @ js '' pi session started'' @ dash_sep @ threadName"

text \<open>
  The creation of a new thread, with its \<^verbatim>\<open>try\<close>/\<^verbatim>\<open>catch\<close>: any throw
  (fetch of the channel, creation, first send) is logged and returns \<^verbatim>\<open>null\<close>.
\<close>

definition createFailed :: "ext_state \<Rightarrow> jstring option \<times> ext_state" where
  "createFailed s = (None, emit (ConsoleError (js ''Failed to create Discord thread: '')) s)"

definition createThread ::
  "ext_state \<Rightarrow> DiscordConfig \<Rightarrow> jstring option \<Rightarrow> jstring \<Rightarrow> embed option \<Rightarrow> resolve_env
     \<Rightarrow> jstring option \<times> ext_state" where
  "createThread s cfg sessionKey threadName firstEmbed w =
     (let s1 = emit (FetchChannel (channelId cfg)) s in
      case fetch_channel w of
        ChannelThrows \<Rightarrow> createFailed s1
      | ChannelNull \<Rightarrow> (None, s1)
      | GuildForum \<Rightarrow>
          (let s2 = emit (CreateForumThread (channelId cfg) threadName
                      (case firstEmbed of
                         Some e \<Rightarrow> Embeds e
                       | None \<Rightarrow> Content (sessionStartedMessage threadName))) s1 in
           case created w of
             None \<Rightarrow> createFailed s2
           | Some threadId \<Rightarrow> (Some threadId, recordBinding s2 sessionKey threadId))
      | GuildText \<Rightarrow>
          (let s2 = emit (CreateTextThread (channelId cfg) threadName) s1 in
           case created w of
             None \<Rightarrow> createFailed s2
           | Some threadId \<Rightarrow>
               (case firstEmbed of
                  None \<Rightarrow> (Some threadId, recordBinding s2 sessionKey threadId)
                | Some e \<Rightarrow>
                    (let s3 = emit (Send threadId (Embeds e)) s2 in
                     if first_send_ok w
                     then (Some threadId, recordBinding s3 sessionKey threadId)
                     else createFailed s3)))
      | OtherChannel \<Rightarrow> (None, s1))"

text \<open>
  \<^verbatim>\<open>getOrCreateThread(ctx, firstEmbed?)\<close>. \<open>sessionName\<close> is what
  \<^verbatim>\<open>pi.getSessionName()\<close> returns inside \<^verbatim>\<open>makeThreadName\<close>. The result is
  the id of the thread returned, or \<open>None\<close> for \<^verbatim>\<open>null\<close>.
\<close>

definition getOrCreateThread ::
  "ext_state \<Rightarrow> ctx \<Rightarrow> embed option \<Rightarrow> jstring option \<Rightarrow> resolve_env
     \<Rightarrow> jstring option \<times> ext_state" where
  "getOrCreateThread s c firstEmbed sessionName w =
     (case (client s, config s) of
        (Some _, Some cfg) \<Rightarrow>
          (let sessionKey = sessionFile c;
               existingThreadId =
                 (if truthy_opt sessionKey then map_of (threads s) (the sessionKey) else None)
           in
           if truthy_opt existingThreadId \<and> the existingThreadId \<in> set (mutedThreads s)
           then (None, s)
           else
             (let (found, s1) =
                    (if truthy_opt existingThreadId
                     then tryExistingThread s sessionKey (the existingThreadId) w
                     else (None, s))
              in case found of
                   Some thread \<Rightarrow> (Some thread, s1)
                 | None \<Rightarrow>
                     createThread s1 cfg sessionKey (makeThreadName c sessionName)
                       firstEmbed w))
      | _ \<Rightarrow> (None, s))"

section \<open>Reaction control\<close>

text \<open>
  A reaction event: the reaction as the handler sees it (after the fetch of a partial
  one), the user, the channel and the message reacted to.
\<close>

record reaction =
  r_partial :: bool
  r_user_bot :: bool
  r_channel_is_thread :: bool
  r_channel_id :: jstring
  r_message_id :: jstring
  r_emoji :: "jstring option"

text \<open>
  What the platform answers during one reaction: whether the fetch of a partial
  reaction succeeds, whether the confirmation is sent and whether the thread is
  deleted. (The failure of \<^verbatim>\<open>react\<close> is swallowed where it happens.)
\<close>

record reaction_env =
  reaction_fetch_ok :: bool
  confirm_send_ok :: bool
  delete_ok :: bool

definition mute_emoji :: jstring where
  "mute_emoji = [0xD83D, 0xDD07]"

definition delete_emoji :: jstring where
  "delete_emoji = [0xD83D, 0xDDD1, 0xFE0F]"

definition check_mark :: jstring where
  "check_mark = [0x2705]"

definition mutedNotice :: jstring where
  "mutedNotice = mute_emoji @ js '' Thread muted'' @ dash_sep
     @ js ''no more notifications will be sent here.''"

definition deleteNotice :: jstring where
  "deleteNotice = delete_emoji @ js '' Thread will be deleted in 3 seconds...''"

text \<open>The branch of the mute emoji.\<close>

definition muteThread :: "ext_state \<Rightarrow> reaction \<Rightarrow> reaction_env \<Rightarrow> ext_state" where
  "muteThread s r w =
     (let threadId = r_channel_id r;
          s1 = saveMuted (s\<lparr>mutedThreads := set_add threadId (mutedThreads s)\<rparr>);
          s2 = emit (Send threadId (Content mutedNotice)) s1
      in if confirm_send_ok w then emit (React (r_message_id r) check_mark) s2 else s2)"

definition deleteFailed :: "ext_state \<Rightarrow> ext_state" where
  "deleteFailed s = emit (ConsoleError (js ''[discord-notify] Failed to delete thread: '')) s"

text \<open>
  The branch of the mute+delete emoji. The test \<^verbatim>\<open>if (sessionKey)\<close> is kept,
  although the handler has returned before for a falsy key.
\<close>

definition muteAndDeleteThread ::
  "ext_state \<Rightarrow> reaction \<Rightarrow> jstring \<Rightarrow> reaction_env \<Rightarrow> ext_state" where
  "muteAndDeleteThread s r sessionKey w =
     (let threadId = r_channel_id r;
          s1 = saveMuted (s\<lparr>mutedThreads := set_add threadId (mutedThreads s)\<rparr>);
          s2 = s1\<lparr>watchedThreads := (watchedThreads s1)(threadId := None)\<rparr>;
          s3 = (if truthy sessionKey
                then saveThreads (s2\<lparr>threads := AList.delete sessionKey (threads s2)\<rparr>)
                else s2);
          s4 = emit (Send threadId (Content deleteNotice)) s3
      in if confirm_send_ok w
         then (let s5 = emit (DeleteThread threadId) (emit (Sleep 3000) s4) in
               if delete_ok w then s5 else deleteFailed s5)
         else deleteFailed s4)"

text \<open>The \<^verbatim>\<open>messageReactionAdd\<close> handler.\<close>

definition messageReactionAdd :: "ext_state \<Rightarrow> reaction \<Rightarrow> reaction_env \<Rightarrow> ext_state" where
  "messageReactionAdd s r w =
     (let s0 = (if r_partial r then emit FetchReaction s else s) in
      if r_partial r \<and> \<not> reaction_fetch_ok w then s0
      else if r_user_bot r then s0
      else if \<not> r_channel_is_thread r then s0
      else
        (case watchedThreads s0 (r_channel_id r) of
           None \<Rightarrow> s0
         | Some sessionKey \<Rightarrow>
             if \<not> truthy sessionKey then s0
             else if r_emoji r = Some mute_emoji then muteThread s0 r w
             else if r_emoji r = Some delete_emoji then muteAndDeleteThread s0 r sessionKey w
             else s0))"

section \<open>Bot lifecycle\<close>

text \<open>
  What \<^verbatim>\<open>startBot\<close> meets: the environment variable, the login (\<open>Some m\<close>: it
  throws an error whose text \<^verbatim>\<open>err?.message ?? String(err)\<close> is \<open>m\<close>), the
  account id of the bot, and the fetch of the configured channel.
\<close>

record start_env =
  bot_token :: "jstring option"
  login_error :: "jstring option"
  user_id :: "jstring option"
  channel_error :: "jstring option"
  channel_is_forum :: bool

record start_result =
  ok :: bool
  error :: "jstring option"

text \<open>
  The text of the \<^verbatim>\<open>TypeError\<close> of reading \<^verbatim>\<open>config.channelId\<close> when
  \<^verbatim>\<open>config\<close> is \<^verbatim>\<open>null\<close>.
\<close>

definition null_config_error :: jstring where
  "null_config_error = js ''Cannot read properties of null (reading 'channelId')''"

text \<open>
  \<^verbatim>\<open>
  for (const [sessionKey, threadId] of Object.entries(threads)) {
    watchedThreads.set(threadId, sessionKey);
  }
  \<close>
\<close>

definition rebuildWatched :: "ThreadMap \<Rightarrow> (jstring \<rightharpoonup> jstring) \<Rightarrow> (jstring \<rightharpoonup> jstring)" where
  "rebuildWatched ts watched = foldl (\<lambda>m (sessionKey, threadId). m(threadId \<mapsto> sessionKey)) watched ts"

text \<open>
  The body of the \<^verbatim>\<open>try\<close> of \<^verbatim>\<open>startBot\<close>: \<open>Inl m\<close> when it throws an
  error of text \<open>m\<close>, with the state as the throw leaves it.
\<close>

definition startBotTry :: "ext_state \<Rightarrow> jstring \<Rightarrow> start_env \<Rightarrow> (jstring + unit) \<times> ext_state" where
  "startBotTry s botToken w =
     (let s1 = emit NewClient (s\<lparr>client := Some Client\<rparr>);
          s2 = emit (Login botToken) s1
      in case login_error w of
           Some m \<Rightarrow> (Inl m, s2)
         | None \<Rightarrow>
             (let s3 = s2\<lparr>botUserId := user_id w\<rparr> in
              case config s3 of
                None \<Rightarrow> (Inl null_config_error, s3)
              | Some cfg \<Rightarrow>
                  (let s4 = emit (FetchChannel (channelId cfg)) s3 in
                   case channel_error w of
                     Some m \<Rightarrow> (Inl m, s4)
                   | None \<Rightarrow>
                       (Inr (),
                        s4\<lparr>isForum := channel_is_forum w,
                           watchedThreads := rebuildWatched (threads s4) (watchedThreads s4)\<rparr>))))"

definition missing_token_error :: jstring where
  "missing_token_error = js ''DISCORD_BOT_TOKEN environment variable not set''"

text \<open>
  \<^verbatim>\<open>startBot()\<close>. The result is \<open>Inr\<close> of the object the promise resolves to,
  or \<open>Inl\<close> of an error thrown out of the function.
\<close>

definition startBot :: "ext_state \<Rightarrow> start_env \<Rightarrow> (jstring + start_result) \<times> ext_state" where
  "startBot s w =
     (if \<not> truthy_opt (bot_token w)
      then (Inr \<lparr>ok = False, error = Some missing_token_error\<rparr>, s)
      else if client s \<noteq> None then (Inr \<lparr>ok = True, error = None\<rparr>, s)
      else
        (case startBotTry s (the (bot_token w)) w of
           (Inr _, s1) \<Rightarrow> (Inr \<lparr>ok = True, error = None\<rparr>, s1)
         | (Inl m, s1) \<Rightarrow> (Inr \<lparr>ok = False, error = Some m\<rparr>, s1\<lparr>client := None\<rparr>)))"

text \<open>\<^verbatim>\<open>stopBot()\<close>; a failing \<^verbatim>\<open>destroy\<close> is swallowed.\<close>

definition stopBot :: "ext_state \<Rightarrow> ext_state" where
  "stopBot s =
     (if client s \<noteq> None then (emit Destroy s)\<lparr>client := None, botUserId := None\<rparr> else s)"

section \<open>Outbound notifications\<close>

text \<open>
  \<^verbatim>\<open>renameCurrentThread(name)\<close>, with what the platform answers: the fetch of the
  thread and whether \<^verbatim>\<open>setName\<close> succeeds.
\<close>

record rename_env =
  rename_fetch :: fetched
  set_name_ok :: bool

definition renameFailed :: "ext_state \<Rightarrow> bool \<times> ext_state" where
  "renameFailed s = (False, emit (ConsoleError (js ''[discord-notify] Failed to rename thread: '')) s)"

definition renameCurrentThread :: "ext_state \<Rightarrow> jstring \<Rightarrow> rename_env \<Rightarrow> bool \<times> ext_state" where
  "renameCurrentThread s name w =
     (if client s = None \<or> \<not> truthy_opt (currentSessionFile s) then (False, s)
      else
        (let threadId = map_of (threads s) (the (currentSessionFile s)) in
         if \<not> truthy_opt threadId then (False, s)
         else
           (let s1 = emit (FetchChannel (the threadId)) s in
            case rename_fetch w of
              FetchThrows \<Rightarrow> renameFailed s1
            | FetchNull \<Rightarrow> (False, s1)
            | FetchNotThread \<Rightarrow> (False, s1)
            | FetchThread _ \<Rightarrow>
                (let s2 = emit (SetName (the threadId) (truncateText name 100)) s1 in
                 if set_name_ok w then (True, s2) else renameFailed s2))))"

text \<open>
  A message of the agent's turn: its role and its content, a string or an array of
  parts (each with a type and a text).
\<close>

datatype msg_content = StringContent jstring | ArrayContent "(jstring \<times> jstring) list" | OtherContent

record agent_message =
  role :: jstring
  content :: msg_content

definition join_nl :: "jstring list \<Rightarrow> jstring" where
  "join_nl xs = concat (case xs of [] \<Rightarrow> [] | y # ys \<Rightarrow> y # map (\<lambda>z. 0x0A # z) ys)"

text \<open>
  \<^verbatim>\<open>extractLastAssistantText(messages)\<close>: the loop runs from the last message to
  the first; \<open>extractFrom\<close> takes the messages in that order.
\<close>

fun extractFrom :: "agent_message list \<Rightarrow> jstring option" where
  "extractFrom [] = None"
| "extractFrom (m # ms) =
     (if role m = js ''assistant''
      then (case content m of
              StringContent c \<Rightarrow> Some c
            | ArrayContent items \<Rightarrow>
                (let textParts = join_nl (map snd (filter (\<lambda>c. fst c = js ''text'') items)) in
                 if truthy textParts then Some textParts else extractFrom ms)
            | OtherContent \<Rightarrow> extractFrom ms)
      else extractFrom ms)"

definition extractLastAssistantText :: "agent_message list \<Rightarrow> jstring option" where
  "extractLastAssistantText messages = extractFrom (rev messages)"

text \<open>Decimal text of a number, as a template literal prints an integer.\<close>

fun show_nat :: "nat \<Rightarrow> jstring" where
  "show_nat n =
     (if n < 10 then [word_of_nat (48 + n)]
      else show_nat (n div 10) @ [word_of_nat (48 + n mod 10)])"

declare show_nat.simps [simp del]

definition show_int :: "int \<Rightarrow> jstring" where
  "show_int i = (if i < 0 then 0x2D # show_nat (nat (- i)) else show_nat (nat i))"

text \<open>
  \<^verbatim>\<open>
  const durationSec = Math.round(duration / 1000);
  const durationStr =
    durationSec >= 60 ? `${Math.floor(durationSec / 60)}m ${durationSec % 60}s` : `${durationSec}s`;
  \<close>
  \<^verbatim>\<open>Math.round\<close> rounds a half up: \<open>(duration + 500) div 1000\<close> on an integer.
\<close>

definition durationStr :: "int \<Rightarrow> jstring" where
  "durationStr duration =
     (let durationSec = (duration + 500) div 1000 in
      if durationSec \<ge> 60
      then show_int (durationSec div 60) @ js ''m '' @ show_int (durationSec mod 60) @ js ''s''
      else show_int durationSec @ js ''s'')"

definition waitingEmbed :: "ctx \<Rightarrow> int \<Rightarrow> embed" where
  "waitingEmbed c duration =
     \<lparr>e_title = [0xD83E, 0xDD16] @ js '' pi is waiting for your input'',
      e_description = None,
      e_fields = [(js ''Project'', js ''`'' @ project c @ js ''`''),
                  (js ''Duration'', durationStr duration)],
      e_footer = Some (cwd c)\<rparr>"

text \<open>A call of the host or of the language model: it throws, or it returns.\<close>

datatype 'a attempt = Throws | Returns 'a

text \<open>
  An entry of the session branch (\<^verbatim>\<open>ctx.sessionManager.getBranch()\<close>): its type
  and, for an entry of type \<^verbatim>\<open>message\<close>, its message.
\<close>

record branch_entry =
  entry_type :: jstring
  entry_message :: agent_message

text \<open>
  What \<^verbatim>\<open>generateThreadName\<close> meets: whether \<^verbatim>\<open>ctx.model\<close> is set, the
  API key (\<^verbatim>\<open>await ctx.modelRegistry.getApiKey(model)\<close>), the session branch, and
  the parts (type and text) of the content that \<^verbatim>\<open>completeSimple\<close> returns.
\<close>

record naming_env =
  has_model :: bool
  api_key :: "jstring option attempt"
  branch :: "branch_entry list attempt"
  completion :: "(jstring \<times> jstring) list attempt"

definition js_join :: "jstring \<Rightarrow> jstring list \<Rightarrow> jstring" where
  "js_join sep xs = concat (case xs of [] \<Rightarrow> [] | y # ys \<Rightarrow> y # map (\<lambda>z. sep @ z) ys)"

definition messageText :: "agent_message \<Rightarrow> jstring" where
  "messageText m =
     (case content m of
        StringContent c \<Rightarrow> c
      | ArrayContent items \<Rightarrow> join_nl (map snd (filter (\<lambda>c. fst c = js ''text'') items))
      | OtherContent \<Rightarrow> [])"

text \<open>
  The loop that gathers the snippets, with the character budget left:
  \<^verbatim>\<open>
  for (const entry of entries) {
    if (entry.type !== "message") continue;
    const msg = entry.message;
    if (msg.role !== "user" && msg.role !== "assistant") continue;
    ...
    if (!text) continue;
    const snippet = truncateText(text, Math.min(400, charBudget));
    snippets.push(`${msg.role}: ${snippet}`);
    charBudget -= snippet.length;
    if (charBudget <= 0) break;
  }
  \<close>
\<close>

fun gatherSnippets :: "int \<Rightarrow> branch_entry list \<Rightarrow> jstring list" where
  "gatherSnippets charBudget [] = []"
| "gatherSnippets charBudget (entry # entries) =
     (if entry_type entry \<noteq> js ''message'' then gatherSnippets charBudget entries
      else
        (let msg = entry_message entry in
         if role msg \<noteq> js ''user'' \<and> role msg \<noteq> js ''assistant''
         then gatherSnippets charBudget entries
         else
           (let text = messageText msg in
            if \<not> truthy text then gatherSnippets charBudget entries
            else
              (let snippet = truncateText text (min 400 charBudget);
                   charBudget' = charBudget - int (length snippet)
               in (role msg @ js '': '' @ snippet)
                    # (if charBudget' \<le> 0 then [] else gatherSnippets charBudget' entries)))))"

text \<open>
  \<^verbatim>\<open>generateThreadName(ctx)\<close>. The reads of the API key and of the branch stand
  before the \<^verbatim>\<open>try\<close>: when one of them throws, the function throws. Inside the
  \<^verbatim>\<open>try\<close>, a throw of the completion is logged and the result is \<^verbatim>\<open>null\<close>.
\<close>

definition generateThreadName ::
  "ext_state \<Rightarrow> naming_env \<Rightarrow> jstring option attempt \<times> ext_state" where
  "generateThreadName s w =
     (if \<not> has_model w then (Returns None, s)
      else
        (case api_key w of
           Throws \<Rightarrow> (Throws, s)
         | Returns apiKey \<Rightarrow>
             if \<not> truthy_opt apiKey then (Returns None, s)
             else
               (case branch w of
                  Throws \<Rightarrow> (Throws, s)
                | Returns entries \<Rightarrow>
                    (let snippets = gatherSnippets 2000 entries in
                     if snippets = [] then (Returns None, s)
                     else
                       (let s1 = emit (CompleteSimple (js_join [0x0A, 0x0A] snippets)) s in
                        case completion w of
                          Throws \<Rightarrow>
                            (Returns None,
                             emit (ConsoleError
                                     (js ''[discord-notify] Failed to generate thread name: '')) s1)
                        | Returns parts \<Rightarrow>
                            (let text = js_trim (concat (map snd
                                          (filter (\<lambda>c. fst c = js ''text'') parts)))
                             in if truthy text \<and> 0 < length text \<and> length text \<le> 80
                                then (Returns (Some text), s1)
                                else (Returns None, s1)))))))"

text \<open>
  What the \<^verbatim>\<open>agent_end\<close> handler meets: the session name of the host, the
  platform's answers to the rename, what the generation of a title meets, the clock,
  the platform's answers to the thread resolution and to the two sends.
\<close>

record agent_end_env =
  session_name :: "jstring option"
  rename :: rename_env
  naming :: naming_env
  now :: int
  resolve :: resolve_env
  text_send_ok :: bool
  embed_send_ok :: bool

text \<open>
  How an \<^verbatim>\<open>async\<close> handler ends: it runs to its end, or an error thrown outside
  every \<^verbatim>\<open>try\<close> ends it where it stands.
\<close>

datatype ending = Finished | Aborted

text \<open>
  The automatic rename at the head of the handler. The call of
  \<^verbatim>\<open>generateThreadName\<close> is awaited outside any \<^verbatim>\<open>try\<close>: when it throws,
  the handler ends there.
\<close>

definition autoRename :: "ext_state \<Rightarrow> ctx \<Rightarrow> agent_end_env \<Rightarrow> ending \<times> ext_state" where
  "autoRename s c w =
     (if (case config s of None \<Rightarrow> False | Some cfg \<Rightarrow> enabled cfg) \<and> client s \<noteq> None
         \<and> truthy_opt (currentSessionFile s)
         \<and> truthy_opt (map_of (threads s) (the (currentSessionFile s)))
      then
        (let currentName = session_name w in
         if truthy_opt currentName \<and> currentName \<noteq> lastKnownSessionName s
         then (Finished,
               snd (renameCurrentThread
                      (s\<lparr>lastKnownSessionName := currentName, threadAutoNamed := True\<rparr>)
                      (makeThreadName c currentName) (rename w)))
         else if \<not> threadAutoNamed s \<and> \<not> truthy_opt currentName
         then (let (generated, s1) = generateThreadName (s\<lparr>threadAutoNamed := True\<rparr>) (naming w)
               in case generated of
                    Throws \<Rightarrow> (Aborted, s1)
                  | Returns name \<Rightarrow>
                      if truthy_opt name
                      then (Finished,
                            snd (renameCurrentThread s1 (fullThreadName c (the name)) (rename w)))
                      else (Finished, s1))
         else (Finished, s))
      else (Finished, s))"

text \<open>The \<^verbatim>\<open>agent_start\<close> handler; the argument is \<^verbatim>\<open>Date.now()\<close>.\<close>

definition agent_start :: "ext_state \<Rightarrow> int \<Rightarrow> ext_state" where
  "agent_start s t = s\<lparr>agentStartTime := t, isAgentBusy := True\<rparr>"

text \<open>
  The \<^verbatim>\<open>agent_end\<close> handler; \<open>messages\<close> is \<^verbatim>\<open>event.messages\<close>
  (\<open>None\<close>: absent). \<open>agent_end_handler\<close> gives how the handler ends and the state
  it leaves; \<open>agent_end\<close> is that state.
\<close>

definition agent_end_handler ::
  "ext_state \<Rightarrow> agent_message list option \<Rightarrow> ctx \<Rightarrow> agent_end_env \<Rightarrow> ending \<times> ext_state" where
  "agent_end_handler s messages c w =
     (case autoRename (s\<lparr>isAgentBusy := False\<rparr>) c w of
        (Aborted, s1) \<Rightarrow> (Aborted, s1)
      | (Finished, s1) \<Rightarrow>
          (Finished,
           case (config s1, client s1) of
             (Some cfg, Some _) \<Rightarrow>
               (if \<not> enabled cfg then s1
                else
                  (let duration = now w - agentStartTime s1;
                       lastMessage = (case messages of
                                        None \<Rightarrow> None
                                      | Some ms \<Rightarrow> extractLastAssistantText ms);
                       (thread, s2) = getOrCreateThread s1 c None (session_name w) (resolve w)
                   in case thread of
                        None \<Rightarrow> s2
                      | Some t \<Rightarrow>
                          (let s3 = (if truthy_opt lastMessage
                                     then (let s' = emit (Send t (Content (mirrorContent (the lastMessage)))) s2 in
                                           if text_send_ok w then s'
                                           else emit (ConsoleError (js ''Discord send failed: '')) s')
                                     else s2)
                           in if duration \<ge> minDurationMs cfg
                              then (let s' = emit (Send t (Embeds (waitingEmbed c duration))) s3 in
                                    if embed_send_ok w then s'
                                    else emit (ConsoleError (js ''Discord embed failed: '')) s')
                              else s3)))
           | _ \<Rightarrow> s1))"

definition agent_end ::
  "ext_state \<Rightarrow> agent_message list option \<Rightarrow> ctx \<Rightarrow> agent_end_env \<Rightarrow> ext_state" where
  "agent_end s messages c w = snd (agent_end_handler s messages c w)"

text \<open>
  \<^verbatim>\<open>notify(embed, ctx)\<close>; \<open>send_ok\<close> is whether the send into an existing thread
  succeeds.
\<close>

definition notify ::
  "ext_state \<Rightarrow> embed \<Rightarrow> ctx \<Rightarrow> jstring option \<Rightarrow> resolve_env \<Rightarrow> bool \<Rightarrow> bool \<times> ext_state" where
  "notify s e c sessionName w send_ok =
     (if client s = None \<or> config s = None then (False, s)
      else
        (let sessionKey = sessionFile c;
             existingThreadId =
               (if truthy_opt sessionKey then map_of (threads s) (the sessionKey) else None);
             (thread, s1) = getOrCreateThread s c
                              (if truthy_opt existingThreadId then None else Some e)
                              sessionName w
         in case thread of
              None \<Rightarrow> (False, s1)
            | Some t \<Rightarrow>
                (if truthy_opt existingThreadId
                 then (let s2 = emit (Send t (Embeds e)) s1 in
                       if send_ok then (True, s2)
                       else (False, emit (ConsoleError (js ''Failed to send to Discord thread: '')) s2))
                 else (True, s1))))"

text \<open>
  The \<^verbatim>\<open>tool_result\<close> handler: the name of the tool and \<^verbatim>\<open>input?.path\<close>.
  Node computes the lower-cased extension and the base name of the path, tells whether
  the file exists and reads it; the platform takes the upload or not.
\<close>

record tool_event =
  toolName :: jstring
  input_path :: "jstring option"

record tool_env =
  ext_lower :: jstring
  file_exists :: bool
  file_name :: jstring
  read_ok :: bool
  tool_session_name :: "jstring option"
  tool_resolve :: resolve_env
  upload_ok :: bool

definition IMAGE_EXTENSIONS :: "jstring list" where
  "IMAGE_EXTENSIONS = [js ''.png'', js ''.jpg'', js ''.jpeg'', js ''.gif'', js ''.webp'']"

text \<open>
  \<^verbatim>\<open>isImagePath(filePath)\<close>, given \<^verbatim>\<open>path.extname(filePath).toLowerCase()\<close>.
\<close>

definition isImagePath :: "jstring \<Rightarrow> bool" where
  "isImagePath extension = (extension \<in> set IMAGE_EXTENSIONS)"

definition uploadFailed :: "ext_state \<Rightarrow> ext_state" where
  "uploadFailed s =
     emit (ConsoleError (js ''[discord-notify] Failed to send image to Discord: '')) s"

definition tool_result :: "ext_state \<Rightarrow> tool_event \<Rightarrow> ctx \<Rightarrow> tool_env \<Rightarrow> ext_state" where
  "tool_result s ev c w =
     (if \<not> (case config s of None \<Rightarrow> False | Some cfg \<Rightarrow> enabled cfg) \<or> client s = None then s
      else
        (let reads = (toolName ev = js ''Read'' \<or> toolName ev = js ''read'');
             writes = (toolName ev = js ''Write'' \<or> toolName ev = js ''write'');
             imagePath = (if (reads \<or> writes) \<and> truthy_opt (input_path ev)
                          then input_path ev else None)
         in if \<not> truthy_opt imagePath \<or> \<not> isImagePath (ext_lower w) then s
            else if \<not> file_exists w then s
            else
              (let (thread, s1) = getOrCreateThread s c None (tool_session_name w)
                                    (tool_resolve w)
               in case thread of
                    None \<Rightarrow> s1
                  | Some t \<Rightarrow>
                      if \<not> read_ok w then uploadFailed s1
                      else
                        (let label = (if reads then [0xD83D, 0xDCD6] @ js '' Reading''
                                      else [0x270F, 0xFE0F] @ js '' Wrote'');
                             s2 = emit (Send t (WithFile
                                    (label @ js '' `'' @ file_name w @ js ''`'') (file_name w))) s1
                         in if upload_ok w then s2 else uploadFailed s2))))"

text \<open>
  The \<^verbatim>\<open>/discord-unmute\<close> command, with the platform's answer to the fetch of the
  thread (a failing fetch or send of the confirmation is swallowed).
\<close>

definition unmutedNotice :: jstring where
  "unmutedNotice = [0xD83D, 0xDD0A] @ js '' Thread unmuted'' @ dash_sep
     @ js ''notifications resumed.''"

definition discord_unmute :: "ext_state \<Rightarrow> fetched \<Rightarrow> ext_state" where
  "discord_unmute s thread_fetch =
     (let threadId = (if truthy_opt (currentSessionFile s)
                      then map_of (threads s) (the (currentSessionFile s)) else None)
      in if \<not> truthy_opt threadId
         then emit (UiNotify (js ''No Discord thread for this session.'') (js ''error'')) s
         else if the threadId \<notin> set (mutedThreads s)
         then emit (UiNotify (js ''This thread is not muted.'') (js ''info'')) s
         else
           (let s1 = saveMuted (s\<lparr>mutedThreads := set_delete (the threadId) (mutedThreads s)\<rparr>);
                s2 = (if client s1 \<noteq> None
                      then (let s' = emit (FetchChannel (the threadId)) s1 in
                            case thread_fetch of
                              FetchThread _ \<Rightarrow> emit (Send (the threadId) (Content unmutedNotice)) s'
                            | _ \<Rightarrow> s')
                      else s1)
            in emit (UiNotify (js ''Thread unmuted'' @ dash_sep @ js ''notifications resumed.'')
                      (js ''info'')) s2))"

section \<open>Inbound messages\<close>

record attachment =
  a_contentType :: "jstring option"
  a_url :: jstring

text \<open>
  A platform message as the handler reads it: \<open>m_content\<close> is
  \<^verbatim>\<open>message.content || ""\<close> and \<open>m_is_voice\<close> is
  \<^verbatim>\<open>message.flags.has(MessageFlags.IsVoiceMessage)\<close>.
\<close>

record message =
  m_id :: jstring
  m_author_bot :: bool
  m_channel_is_thread :: bool
  m_channel_id :: jstring
  m_content :: jstring
  m_is_voice :: bool
  m_attachments :: "attachment list"

text \<open>
  \<^verbatim>\<open>a.contentType?.includes("audio")\<close> and
  \<^verbatim>\<open>a.contentType?.startsWith("image/")\<close>.
\<close>

definition isAudio :: "attachment \<Rightarrow> bool" where
  "isAudio a = (case a_contentType a of None \<Rightarrow> False | Some t \<Rightarrow> sublist (js ''audio'') t)"

definition isImage :: "attachment \<Rightarrow> bool" where
  "isImage a = (case a_contentType a of None \<Rightarrow> False | Some t \<Rightarrow> prefix (js ''image/'') t)"

definition voiceAttachment :: "message \<Rightarrow> attachment option" where
  "voiceAttachment m = (if m_is_voice m then find isAudio (m_attachments m) else None)"

definition imageAttachments :: "message \<Rightarrow> attachment list" where
  "imageAttachments m = filter isImage (m_attachments m)"

text \<open>An HTTP fetch: it throws, or answers with a status, a content type and a body.\<close>

datatype http_response = HttpThrows | HttpResponse bool "jstring option" jstring

text \<open>The recognition: it throws, or returns a result whose text may be absent.\<close>

datatype asr_result = AsrThrows | AsrResult "jstring option"

text \<open>
  What \<^verbatim>\<open>transcribeVoiceMessage\<close> meets: the download, the transcoding by the
  external converter, the reading of the samples, the recognition.
\<close>

record voice_env =
  voice_response :: http_response
  transcode_ok :: bool
  wav_ok :: bool
  asr :: asr_result

text \<open>What one message handler meets.\<close>

record message_env =
  voice :: voice_env
  download :: "jstring \<Rightarrow> http_response"
  host_ok :: bool

definition transcriptionFailed :: "ext_state \<Rightarrow> jstring option \<times> ext_state" where
  "transcriptionFailed s =
     (None, emit (ConsoleError (js ''[discord-notify] Transcription failed: '')) s)"

text \<open>
  \<^verbatim>\<open>transcribeVoiceMessage(url)\<close>: every step may fail; the last line is
  \<^verbatim>\<open>return result?.text?.trim() || null\<close>.
\<close>

definition transcribeVoiceMessage ::
  "ext_state \<Rightarrow> jstring \<Rightarrow> voice_env \<Rightarrow> jstring option \<times> ext_state" where
  "transcribeVoiceMessage s url w =
     (let s1 = emit (HttpGet url) s in
      case voice_response w of
        HttpThrows \<Rightarrow> transcriptionFailed s1
      | HttpResponse response_ok _ _ \<Rightarrow>
          if \<not> response_ok then (None, s1)
          else if \<not> transcode_ok w then transcriptionFailed s1
          else if \<not> wav_ok w then transcriptionFailed s1
          else
            (case asr w of
               AsrThrows \<Rightarrow> transcriptionFailed s1
             | AsrResult None \<Rightarrow> (None, s1)
             | AsrResult (Some t) \<Rightarrow>
                 (if truthy (js_trim t) then (Some (js_trim t), s1) else (None, s1))))"

definition supported_media :: "jstring list" where
  "supported_media = [js ''image/png'', js ''image/jpeg'', js ''image/gif'', js ''image/webp'']"

text \<open>
  \<^verbatim>\<open>downloadImageAsBase64(url)\<close>, as the content part it becomes (\<open>None\<close> for
  \<^verbatim>\<open>null\<close>).
\<close>

definition downloadImageAsBase64 ::
  "ext_state \<Rightarrow> jstring \<Rightarrow> message_env \<Rightarrow> part option \<times> ext_state" where
  "downloadImageAsBase64 s url w =
     (let s1 = emit (HttpGet url) s in
      case download w url of
        HttpThrows \<Rightarrow>
          (None, emit (ConsoleError (js ''[discord-notify] Failed to download image: '')) s1)
      | HttpResponse response_ok contentType base64 \<Rightarrow>
          if \<not> response_ok then (None, s1)
          else
            (let ct = (if truthy_opt contentType then the contentType else js ''image/png'');
                 mediaType = js_trim (takeWhile (\<lambda>c. c \<noteq> 0x3B) ct)
             in (Some (ImagePart (if mediaType \<in> set supported_media then mediaType
                                  else js ''image/png'') base64),
                 s1)))"

text \<open>
  The loop over the image attachments, in attachment order: a part for each image that
  downloads.
\<close>

fun downloadImages ::
  "ext_state \<Rightarrow> attachment list \<Rightarrow> message_env \<Rightarrow> part list \<times> ext_state" where
  "downloadImages s [] w = ([], s)"
| "downloadImages s (a # as) w =
     (let (imgData, s1) = downloadImageAsBase64 s (a_url a) w;
          (rest, s2) = downloadImages s1 as w
      in ((case imgData of None \<Rightarrow> [] | Some p \<Rightarrow> [p]) @ rest, s2))"

definition microphone :: jstring where
  "microphone = [0xD83C, 0xDF99, 0xFE0F]"

definition framed_picture :: jstring where
  "framed_picture = [0xD83D, 0xDDBC, 0xFE0F]"

definition transcriptionEcho :: "jstring \<Rightarrow> jstring" where
  "transcriptionEcho transcription = microphone @ js '' *'' @ [0x22] @ transcription @ [0x22] @ js ''*''"

definition transcriptionError :: jstring where
  "transcriptionError = [0x274C] @ js '' Failed to transcribe voice message''"

definition default_caption :: jstring where
  "default_caption = js ''Here's an image from Discord:''"

text \<open>
  The delivery of a turn:
  \<^verbatim>\<open>
  try {
    if (isAgentBusy) { pi.sendUserMessage(x, { deliverAs: "followUp" }); }
    else { pi.sendUserMessage(x); }
  } catch (err) { console.error(...); }
  \<close>
  The busy flag is read when the call is made.
\<close>

definition deliver :: "ext_state \<Rightarrow> user_content \<Rightarrow> jstring \<Rightarrow> message_env \<Rightarrow> ext_state" where
  "deliver s x complaint w =
     (let s1 = emit (SendUserMessage x (if isAgentBusy s then FollowUp else Immediate)) s in
      if host_ok w then s1 else emit (ConsoleError complaint) s1)"

text \<open>The plain-text tail of the handler: an empty text is dropped.\<close>

definition deliverText :: "ext_state \<Rightarrow> jstring \<Rightarrow> message_env \<Rightarrow> ext_state" where
  "deliverText s text w =
     (if \<not> truthy text then s
      else deliver s (Plain text) (js ''Failed to pipe Discord message to pi: '') w)"

text \<open>
  The image branch after its reaction: the parts are the text (if any) and one part per
  image that downloads; with no part at all the handler returns, otherwise a missing
  text is replaced by the default caption and the turn is delivered.
\<close>

definition deliverImages ::
  "ext_state \<Rightarrow> jstring \<Rightarrow> attachment list \<Rightarrow> message_env \<Rightarrow> ext_state" where
  "deliverImages s text images w =
     (let (imgs, s1) = downloadImages s images w;
          contentParts = (if truthy text then [TextPart text] else []) @ imgs
      in if contentParts = [] then s1
         else deliver s1
                (Parts (if \<not> truthy text then TextPart default_caption # contentParts
                        else contentParts))
                (js ''Failed to pipe Discord image to pi: '') w)"

text \<open>
  The guards at the head of the \<^verbatim>\<open>messageCreate\<close> handler: the author is not a
  bot, the channel is a thread, the thread is watched (with a truthy session key) and
  its session is the current one.
\<close>

definition accepts :: "ext_state \<Rightarrow> message \<Rightarrow> bool" where
  "accepts s m =
     (\<not> m_author_bot m \<and> m_channel_is_thread m \<and>
      (case watchedThreads s (m_channel_id m) of
         None \<Rightarrow> False
       | Some sessionKey \<Rightarrow> truthy sessionKey \<and> currentSessionFile s = Some sessionKey))"

text \<open>
  The handler is an \<^verbatim>\<open>async\<close> function: it runs without interruption up to its
  first \<^verbatim>\<open>await\<close>, and the event loop runs other callbacks before it resumes. A
  message with neither a voice attachment nor an image is handled without any
  \<^verbatim>\<open>await\<close>. With one, the first \<^verbatim>\<open>await\<close> is that of the reaction that
  acknowledges it; the handler is then suspended with its local variables.
\<close>

record suspended =
  p_message :: message
  p_text :: jstring
  p_voice :: "attachment option"
  p_images :: "attachment list"

definition suspension :: "message \<Rightarrow> suspended" where
  "suspension m =
     \<lparr>p_message = m, p_text = m_content m,
      p_voice = voiceAttachment m, p_images = imageAttachments m\<rparr>"

definition messageBegin ::
  "ext_state \<Rightarrow> message \<Rightarrow> message_env \<Rightarrow> suspended option \<times> ext_state" where
  "messageBegin s m w =
     (if \<not> accepts s m then (None, s)
      else
        (let p = suspension m
         in if p_voice p \<noteq> None then (Some p, emit (React (m_id m) microphone) s)
            else if p_images p \<noteq> [] then (Some p, emit (React (m_id m) framed_picture) s)
            else (None, deliverText s (p_text p) w)))"

text \<open>
  The rest of the handler, run when it resumes, on the state of that moment: the voice
  branch (transcription, echo or error reply), then the image branch or the plain text.
\<close>

definition messageResume :: "ext_state \<Rightarrow> suspended \<Rightarrow> message_env \<Rightarrow> ext_state" where
  "messageResume s p w =
     (let mid = m_id (p_message p) in
      case p_voice p of
        None \<Rightarrow>
          (if p_images p \<noteq> [] then deliverImages s (p_text p) (p_images p) w
           else deliverText s (p_text p) w)
      | Some a \<Rightarrow>
          (let (transcription, s1) = transcribeVoiceMessage s (a_url a) (voice w) in
           if truthy_opt transcription
           then (let text = the transcription;
                     s2 = emit (Reply mid (transcriptionEcho text)) s1
                 in if p_images p \<noteq> []
                    then deliverImages (emit (React mid framed_picture) s2) text (p_images p) w
                    else deliverText s2 text w)
           else emit (Reply mid transcriptionError) s1))"

text \<open>The handler run from its start to its end with no other callback in between.\<close>

definition messageCreate :: "ext_state \<Rightarrow> message \<Rightarrow> message_env \<Rightarrow> ext_state" where
  "messageCreate s m w =
     (case messageBegin s m w of
        (None, s1) \<Rightarrow> s1
      | (Some p, s1) \<Rightarrow> messageResume s1 p w)"

text \<open>The turns handed to the host so far, in the order of the calls.\<close>

fun turn_of :: "effect \<Rightarrow> (user_content \<times> delivery) list" where
  "turn_of (SendUserMessage x d) = [(x, d)]"
| "turn_of _ = []"

definition turns :: "ext_state \<Rightarrow> (user_content \<times> delivery) list" where
  "turns s = concat (map turn_of (effects s))"

section \<open>The event loop\<close>

text \<open>
  The callbacks of the single event loop that bear on the delivery of turns: a message
  arrives, a suspended message handler resumes (the \<open>i\<close>-th of those suspended), a
  turn of the agent starts, a turn of the agent ends. The \<^verbatim>\<open>agent_end\<close> handler
  clears the busy flag in its first statement, and nothing it does after its own
  \<^verbatim>\<open>await\<close>s reads or writes the flag or hands a turn to the host; it is one step
  here. The several \<^verbatim>\<open>await\<close>s of a message handler are one suspension: between
  them it touches only its local variables and the log of calls.
\<close>

datatype event =
    MessageArrives message message_env
  | HandlerResumes nat message_env
  | AgentStarts int
  | AgentEnds "agent_message list option" ctx agent_end_env

record loop_state =
  ext :: ext_state
  waiting :: "suspended list"

definition step :: "loop_state \<Rightarrow> event \<Rightarrow> loop_state" where
  "step l ev =
     (case ev of
        MessageArrives m w \<Rightarrow>
          (case messageBegin (ext l) m w of
             (None, s1) \<Rightarrow> l\<lparr>ext := s1\<rparr>
           | (Some p, s1) \<Rightarrow> l\<lparr>ext := s1, waiting := waiting l @ [p]\<rparr>)
      | HandlerResumes i w \<Rightarrow>
          (if i < length (waiting l)
           then l\<lparr>ext := messageResume (ext l) (waiting l ! i) w,
                  waiting := take i (waiting l) @ drop (Suc i) (waiting l)\<rparr>
           else l)
      | AgentStarts t \<Rightarrow> l\<lparr>ext := agent_start (ext l) t\<rparr>
      | AgentEnds messages c w \<Rightarrow> l\<lparr>ext := agent_end (ext l) messages c w\<rparr>)"

definition run :: "loop_state \<Rightarrow> event list \<Rightarrow> loop_state" where
  "run l evs = foldl step l evs"

section \<open>Initial state and the scenarios of the specification\<close>

text \<open>
  The extension at load: the configuration, the bindings and the muted set as read
  from the three files, everything else as the closure initialises it.
\<close>

definition initial_state :: "DiscordConfig option \<Rightarrow> ThreadMap \<Rightarrow> jstring list \<Rightarrow> ext_state" where
  "initial_state cfg ts muted =
     \<lparr>config = cfg, threads = ts, mutedThreads = muted, agentStartTime = 0,
      client = None, botUserId = None, isForum = False, isAgentBusy = False,
      lastKnownSessionName = None, threadAutoNamed = False,
      watchedThreads = Map.empty, currentSessionFile = None,
      threads_file = None, muted_file = None, effects = []\<rparr>"

definition session_S1 :: jstring where
  "session_S1 = js ''S1''"

definition thread_T1 :: jstring where
  "thread_T1 = js ''T1''"

definition thread_T2 :: jstring where
  "thread_T2 = js ''T2''"

definition scenario_config :: DiscordConfig where
  "scenario_config =
     \<lparr>channelId = js ''C1'', enabled = True, minDurationMs = 15000, includePreview = True\<rparr>"

text \<open>
  The bot connected, session \<open>S1\<close> current and bound to thread \<open>T1\<close>, nothing
  muted, the agent idle.
\<close>

definition bound_state :: ext_state where
  "bound_state =
     (initial_state (Some scenario_config) [(session_S1, thread_T1)] [])
       \<lparr>client := Some Client,
        watchedThreads := [thread_T1 \<mapsto> session_S1],
        currentSessionFile := Some session_S1\<rparr>"

definition scenario_ctx :: ctx where
  "scenario_ctx = \<lparr>cwd = js ''/home/u/proj'', project = js ''proj'', sessionFile = Some session_S1\<rparr>"

text \<open>A platform on which every call succeeds; a new thread gets the id \<open>T2\<close>.\<close>

definition resolve_fine :: resolve_env where
  "resolve_fine =
     \<lparr>fetch_existing = FetchThread False, unarchive_ok = True, fetch_channel = GuildForum,
      created = Some thread_T2, first_send_ok = True\<rparr>"

definition reaction_fine :: reaction_env where
  "reaction_fine = \<lparr>reaction_fetch_ok = True, confirm_send_ok = True, delete_ok = True\<rparr>"

text \<open>A reaction with the given emoji by a human user on a message of thread \<open>T1\<close>.\<close>

definition reaction_in_T1 :: "jstring \<Rightarrow> reaction" where
  "reaction_in_T1 emoji =
     \<lparr>r_partial = False, r_user_bot = False, r_channel_is_thread = True,
      r_channel_id = thread_T1, r_message_id = js ''M1'', r_emoji = Some emoji\<rparr>"

text \<open>A start in which everything succeeds, and the state before any start.\<close>

definition start_fine :: start_env where
  "start_fine =
     \<lparr>bot_token = Some (js ''token''), login_error = None, user_id = Some (js ''B1''),
      channel_error = None, channel_is_forum = True\<rparr>"

definition unbound_state :: ext_state where
  "unbound_state = initial_state (Some scenario_config) [(session_S1, thread_T1)] []"

text \<open>A start in which the login succeeds and the fetch of the configured channel throws.\<close>

definition start_channel_gone :: start_env where
  "start_channel_gone = start_fine\<lparr>channel_error := Some (js ''Unknown Channel'')\<rparr>"

text \<open>
  The end of a turn at time 21000 on a platform on which every call succeeds, and a
  turn whose last response is \<open>done\<close>.
\<close>

definition agent_end_fine :: agent_end_env where
  "agent_end_fine =
     \<lparr>session_name = None,
      rename = \<lparr>rename_fetch = FetchThread False, set_name_ok = True\<rparr>,
      naming = \<lparr>has_model = False, api_key = Returns None, branch = Returns [],
                 completion = Returns []\<rparr>,
      now = 21000, resolve = resolve_fine,
      text_send_ok = True, embed_send_ok = True\<rparr>"

definition done_messages :: "agent_message list" where
  "done_messages = [\<lparr>role = js ''user'', content = StringContent (js ''go'')\<rparr>,
                    \<lparr>role = js ''assistant'', content = StringContent (js ''done'')\<rparr>]"

text \<open>
  Messages of a human user in thread \<open>T1\<close>: a voice note, a typed text, a picture
  without text and a picture with the text \<open>look\<close>.
\<close>

definition message_in_T1 :: "jstring \<Rightarrow> jstring \<Rightarrow> bool \<Rightarrow> attachment list \<Rightarrow> message" where
  "message_in_T1 mid text is_voice atts =
     \<lparr>m_id = mid, m_author_bot = False, m_channel_is_thread = True, m_channel_id = thread_T1,
      m_content = text, m_is_voice = is_voice, m_attachments = atts\<rparr>"

definition voice_note :: message where
  "voice_note = message_in_T1 (js ''M1'') [] True
     [\<lparr>a_contentType = Some (js ''audio/ogg''), a_url = js ''u1''\<rparr>]"

definition typed_reply :: message where
  "typed_reply = message_in_T1 (js ''M2'') (js ''second'') False []"

definition picture_alone :: message where
  "picture_alone = message_in_T1 (js ''M3'') [] False
     [\<lparr>a_contentType = Some (js ''image/png''), a_url = js ''u3''\<rparr>]"

definition picture_with_text :: message where
  "picture_with_text = message_in_T1 (js ''M4'') (js ''look'') False
     [\<lparr>a_contentType = Some (js ''image/png''), a_url = js ''u4''\<rparr>]"

text \<open>
  The voice note is transcribed as \<open>first\<close>; no image can be downloaded; the host
  takes every turn.
\<close>

definition hears_first :: message_env where
  "hears_first =
     \<lparr>voice = \<lparr>voice_response = HttpResponse True None [], transcode_ok = True,
               wav_ok = True, asr = AsrResult (Some (js '' first ''))\<rparr>,
      download = (\<lambda>url. HttpResponse False None []),
      host_ok = True\<rparr>"

text \<open>The same, but the recognition throws.\<close>

definition hears_nothing :: message_env where
  "hears_nothing = hears_first\<lparr>voice := (voice hears_first)\<lparr>asr := AsrThrows\<rparr>\<rparr>"

section \<open>Predicates of the statements\<close>

text \<open>The sends into threads so far, in the order of the calls.\<close>

fun send_of :: "effect \<Rightarrow> (jstring \<times> payload) list" where
  "send_of (Send t p) = [(t, p)]"
| "send_of _ = []"

definition sends :: "ext_state \<Rightarrow> (jstring \<times> payload) list" where
  "sends s = concat (map send_of (effects s))"

text \<open>
  The reaction passes the guards of its handler: it is loaded (not partial, or its
  fetch succeeds), its user is not a bot, its channel is a thread of the watched index,
  under a truthy session key.
\<close>

definition reaction_handled :: "ext_state \<Rightarrow> reaction \<Rightarrow> reaction_env \<Rightarrow> jstring \<Rightarrow> bool" where
  "reaction_handled s r w sessionKey =
     ((if r_partial r then reaction_fetch_ok w else True) \<and>
      \<not> r_user_bot r \<and> r_channel_is_thread r \<and>
      watchedThreads s (r_channel_id r) = Some sessionKey \<and> truthy sessionKey)"

text \<open>The session of the context is bound to a thread of the muted set.\<close>

definition muted_binding :: "ext_state \<Rightarrow> ctx \<Rightarrow> jstring \<Rightarrow> jstring \<Rightarrow> bool" where
  "muted_binding s c sessionKey threadId =
     (sessionFile c = Some sessionKey \<and> truthy sessionKey \<and>
      map_of (threads s) sessionKey = Some threadId \<and> truthy threadId \<and>
      threadId \<in> set (mutedThreads s))"

text \<open>
  The session of the context is bound to a thread that is not muted and whose fetch
  throws; the bot is connected and configured, so the fetch is made.
\<close>

definition stale_binding :: "ext_state \<Rightarrow> ctx \<Rightarrow> resolve_env \<Rightarrow> jstring \<Rightarrow> jstring \<Rightarrow> bool" where
  "stale_binding s c w sessionKey threadId =
     (client s \<noteq> None \<and> config s \<noteq> None \<and>
      sessionFile c = Some sessionKey \<and> truthy sessionKey \<and>
      map_of (threads s) sessionKey = Some threadId \<and> truthy threadId \<and>
      threadId \<notin> set (mutedThreads s) \<and> fetch_existing w = FetchThrows)"

text \<open>
  The platform creates the thread \<open>threadId\<close>: the configured channel is a forum or a
  text channel, the creation returns it and, in a text channel, the send of the first
  embed (if there is one) succeeds.
\<close>

definition creation_succeeds :: "embed option \<Rightarrow> resolve_env \<Rightarrow> jstring \<Rightarrow> bool" where
  "creation_succeeds firstEmbed w threadId =
     (created w = Some threadId \<and>
      (fetch_channel w = GuildForum \<or>
       fetch_channel w = GuildText \<and> (firstEmbed = None \<or> first_send_ok w)))"

text \<open>No thread can be created: \<open>creation_succeeds\<close> fails for every id.\<close>

definition creation_fails :: "embed option \<Rightarrow> resolve_env \<Rightarrow> bool" where
  "creation_fails firstEmbed w =
     (created w = None \<or>
      \<not> (fetch_channel w = GuildForum \<or>
         fetch_channel w = GuildText \<and> (firstEmbed = None \<or> first_send_ok w)))"

text \<open>
  The calls by which a thread is created, after the fetch of the configured channel.
\<close>

definition creation_calls ::
  "DiscordConfig \<Rightarrow> jstring \<Rightarrow> embed option \<Rightarrow> resolve_env \<Rightarrow> jstring \<Rightarrow> effect list" where
  "creation_calls cfg threadName firstEmbed w threadId =
     (if fetch_channel w = GuildForum
      then [CreateForumThread (channelId cfg) threadName
              (case firstEmbed of
                 Some e \<Rightarrow> Embeds e
               | None \<Rightarrow> Content (sessionStartedMessage threadName))]
      else CreateTextThread (channelId cfg) threadName
             # (case firstEmbed of Some e \<Rightarrow> [Send threadId (Embeds e)] | None \<Rightarrow> []))"

text \<open>
  The connection attempt of \<^verbatim>\<open>startBot\<close> fails: the login throws, or the
  configuration is missing, or the fetch of the configured channel throws.
\<close>

definition connect_fails :: "ext_state \<Rightarrow> start_env \<Rightarrow> bool" where
  "connect_fails s w = (login_error w \<noteq> None \<or> config s = None \<or> channel_error w \<noteq> None)"



text \<open>The replies to platform messages so far, in the order of the calls.\<close>

fun reply_of :: "effect \<Rightarrow> (jstring \<times> jstring) list" where
  "reply_of (Reply m x) = [(m, x)]"
| "reply_of _ = []"

definition replies :: "ext_state \<Rightarrow> (jstring \<times> jstring) list" where
  "replies s = concat (map reply_of (effects s))"

text \<open>How a turn delivered in this state is delivered.\<close>

definition delivery_mode :: "ext_state \<Rightarrow> delivery" where
  "delivery_mode s = (if isAgentBusy s then FollowUp else Immediate)"

text \<open>The download of the image at this address yields no image.\<close>

definition download_fails :: "message_env \<Rightarrow> jstring \<Rightarrow> bool" where
  "download_fails w url =
     (case download w url of HttpThrows \<Rightarrow> True | HttpResponse response_ok _ _ \<Rightarrow> \<not> response_ok)"

text \<open>
  An event whose callback runs to its end without an \<^verbatim>\<open>await\<close>: every event but
  the arrival of a message with a voice attachment or an image.
\<close>

definition synchronous :: "event \<Rightarrow> bool" where
  "synchronous ev =
     (case ev of
        MessageArrives m w \<Rightarrow> voiceAttachment m = None \<and> imageAttachments m = []
      | _ \<Rightarrow> True)"

text \<open>
  The turn a plain-text message yields when it arrives in state \<open>s\<close>: its text
  verbatim, if the guards accept the message and the text is not empty.
\<close>

definition turn_at_arrival :: "ext_state \<Rightarrow> event \<Rightarrow> (user_content \<times> delivery) list" where
  "turn_at_arrival s ev =
     (case ev of
        MessageArrives m w \<Rightarrow>
          (if accepts s m \<and> truthy (m_content m)
           then [(Plain (m_content m), delivery_mode s)] else [])
      | _ \<Rightarrow> [])"

text \<open>
  The turns of the arriving messages, in the order of arrival, each with the state the
  loop has reached when it arrives.
\<close>

definition turns_in_arrival_order ::
  "loop_state \<Rightarrow> event list \<Rightarrow> (user_content \<times> delivery) list" where
  "turns_in_arrival_order l evs =
     concat (map (\<lambda>i. turn_at_arrival (ext (run l (take i evs))) (evs ! i)) [0..<length evs])"

text \<open>
  The event loop with nothing suspended. A chat of three typed messages around one turn
  of the agent; and a voice note followed by a typed message that arrives before the
  handler of the voice note resumes.
\<close>

definition loop_start :: loop_state where
  "loop_start = \<lparr>ext = bound_state, waiting = []\<rparr>"

definition chat_while_working :: "event list" where
  "chat_while_working =
     [MessageArrives typed_reply hears_first,
      AgentStarts 1000,
      MessageArrives (message_in_T1 (js ''M5'') (js ''third'') False []) hears_first,
      AgentEnds (Some done_messages) scenario_ctx agent_end_fine,
      MessageArrives (message_in_T1 (js ''M6'') (js ''fourth'') False []) hears_first]"

definition overtaking :: "event list" where
  "overtaking =
     [MessageArrives voice_note hears_first,
      MessageArrives typed_reply hears_first,
      HandlerResumes 0 hears_first]"

section \<open>Properties of the truncation\<close>

lemma length_ellipsis: "length ellipsis = 3"
  by (simp add: ellipsis_def js_def)

lemma truncateText_short:
  "int (length text) \<le> maxLen \<Longrightarrow> truncateText text maxLen = text"
  by (simp add: truncateText_def)

lemma truncateText_long:
  assumes "3 \<le> maxLen" and "maxLen < int (length text)"
  shows "truncateText text maxLen = take (nat (maxLen - 3)) text @ ellipsis"
  using assms by (simp add: truncateText_def slice0_def)

lemma truncateText_length:
  assumes "3 \<le> maxLen"
  shows "int (length (truncateText text maxLen)) \<le> maxLen"
proof (cases "int (length text) \<le> maxLen")
  case True
  then show ?thesis by (simp add: truncateText_short)
next
  case False
  then have "truncateText text maxLen = take (nat (maxLen - 3)) text @ ellipsis"
    using assms by (simp add: truncateText_long)
  moreover have "length (take (nat (maxLen - 3)) text) = nat (maxLen - 3)"
    using False assms by simp
  ultimately show ?thesis
    using assms by (simp add: length_ellipsis)
qed

lemma truncateText_truncated_to:
  assumes "3 \<le> n"
  shows "truncated_to n text (truncateText text (int n))"
proof -
  have len: "length (truncateText text (int n)) \<le> n"
    using truncateText_length [of "int n" "text"] assms by simp
  show ?thesis
  proof (cases "length text \<le> n")
    case True
    then show ?thesis
      by (simp add: truncated_to_def truncateText_short)
  next
    case False
    then have "truncateText text (int n) = take (nat (int n - 3)) text @ ellipsis"
      using assms by (simp add: truncateText_long)
    moreover have "nat (int n - 3) = n - 3"
      by simp
    ultimately show ?thesis
      using len False by (simp add: truncated_to_def take_is_prefix)
  qed
qed

text \<open>
  C9. Every thread name (the name of a new thread, the name passed to a rename, the
  full name built by the rename paths) is the text truncated to 100 code units, and the
  mirrored message body is the response truncated to 1900: a text within the limit is
  returned unchanged, a longer one becomes its own prefix followed by the three dots, and
  the result never exceeds the limit.
\<close>

theorem truncation_respects_limits:
  "truncated_to 100
     (project c @ dash_sep @ (if truthy_opt sn then the sn else js ''new session''))
     (makeThreadName c sn)
   \<and> truncated_to 100 name (renamedThreadName name)
   \<and> truncated_to 100 (project c @ dash_sep @ name) (fullThreadName c name)
   \<and> truncated_to 1900 msg (mirrorContent msg)"
proof -
  have t100: "\<And>t. truncated_to 100 t (truncateText t 100)"
    using truncateText_truncated_to [of 100] by simp
  have t1900: "\<And>t. truncated_to 1900 t (truncateText t 1900)"
    using truncateText_truncated_to [of 1900] by simp
  show ?thesis
    by (simp add: makeThreadName_def renamedThreadName_def fullThreadName_def
        mirrorContent_def t100 t1900)
qed

text \<open>
  A short session name is kept; one of 200 code units is cut so that the name has 100.
\<close>

theorem truncation_respects_limits_witness:
  "makeThreadName scenario_ctx (Some (js ''fix login'')) = js ''proj'' @ dash_sep @ js ''fix login''
   \<and> makeThreadName scenario_ctx (Some (replicate 200 0x61))
       = js ''proj'' @ dash_sep @ replicate 90 0x61 @ js ''...''
   \<and> length (makeThreadName scenario_ctx (Some (replicate 200 0x61))) = 100"
proof -
  have t: "truthy_opt (Some (js ''fix login''))" "truthy_opt (Some (replicate 200 0x61))"
    by (simp_all add: truthy_opt_def truthy_def js_def)
  from truncation_respects_limits
         [where c = scenario_ctx and sn = "Some (js ''fix login'')", THEN conjunct1]
  have a: "makeThreadName scenario_ctx (Some (js ''fix login''))
             = js ''proj'' @ dash_sep @ js ''fix login''"
    using t by (simp add: truncated_to_def scenario_ctx_def js_def dash_sep_def)
  from truncation_respects_limits
         [where c = scenario_ctx and sn = "Some (replicate 200 0x61)", THEN conjunct1]
  have b: "makeThreadName scenario_ctx (Some (replicate 200 0x61))
             = js ''proj'' @ dash_sep @ replicate 90 0x61 @ js ''...''"
    using t by (simp add: truncated_to_def scenario_ctx_def js_def dash_sep_def ellipsis_def)
  have c: "length (js ''proj'' @ dash_sep @ replicate 90 (0x61 :: 16 word) @ js ''...'') = 100"
    by (simp add: js_def dash_sep_def)
  from a b c show ?thesis
    by (simp only:)
qed

section \<open>The state and the log through the elementary operations\<close>

lemma emit_fields [simp]:
  "threads (emit e s) = threads s"
  "mutedThreads (emit e s) = mutedThreads s"
  "watchedThreads (emit e s) = watchedThreads s"
  "threads_file (emit e s) = threads_file s"
  "muted_file (emit e s) = muted_file s"
  "client (emit e s) = client s"
  "config (emit e s) = config s"
  "isAgentBusy (emit e s) = isAgentBusy s"
  "currentSessionFile (emit e s) = currentSessionFile s"
  "agentStartTime (emit e s) = agentStartTime s"
  "lastKnownSessionName (emit e s) = lastKnownSessionName s"
  "threadAutoNamed (emit e s) = threadAutoNamed s"
  "effects (emit e s) = effects s @ [e]"
  by (simp_all add: emit_def)

lemma saveMuted_fields [simp]:
  "threads (saveMuted s) = threads s"
  "mutedThreads (saveMuted s) = mutedThreads s"
  "watchedThreads (saveMuted s) = watchedThreads s"
  "threads_file (saveMuted s) = threads_file s"
  "muted_file (saveMuted s) = Some (mutedThreads s)"
  "effects (saveMuted s) = effects s @ [SaveMuted (mutedThreads s)]"
  by (simp_all add: saveMuted_def)

lemma saveThreads_fields [simp]:
  "threads (saveThreads s) = threads s"
  "mutedThreads (saveThreads s) = mutedThreads s"
  "watchedThreads (saveThreads s) = watchedThreads s"
  "threads_file (saveThreads s) = Some (threads s)"
  "muted_file (saveThreads s) = muted_file s"
  "client (saveThreads s) = client s"
  "config (saveThreads s) = config s"
  "effects (saveThreads s) = effects s @ [SaveThreads (threads s)]"
  by (simp_all add: saveThreads_def)

lemma sends_emit [simp]: "sends (emit e s) = sends s @ send_of e"
  by (simp add: sends_def)

lemma sends_update [simp]:
  "sends (s\<lparr>isAgentBusy := b\<rparr>) = sends s"
  "sends (s\<lparr>threadAutoNamed := a\<rparr>) = sends s"
  "sends (s\<lparr>lastKnownSessionName := n\<rparr>) = sends s"
  by (simp_all add: sends_def)

lemma set_add_member: "x \<in> set (set_add x xs)"
  by (simp add: set_add_def)

lemmas scenario_defs =
  bound_state_def initial_state_def session_S1_def thread_T1_def thread_T2_def
  scenario_config_def scenario_ctx_def resolve_fine_def reaction_fine_def reaction_in_T1_def
  js_def truthy_def truthy_opt_def

section \<open>Properties of the reaction control\<close>

lemma emoji_distinct: "mute_emoji \<noteq> delete_emoji"
  by (simp add: mute_emoji_def delete_emoji_def)

lemma reaction_mute:
  assumes "reaction_handled s r w sk" and "r_emoji r = Some mute_emoji"
  shows "messageReactionAdd s r w =
         muteThread (if r_partial r then emit FetchReaction s else s) r w"
  using assms by (auto simp: messageReactionAdd_def reaction_handled_def Let_def)

lemma reaction_delete:
  assumes "reaction_handled s r w sk" and "r_emoji r = Some delete_emoji"
  shows "messageReactionAdd s r w =
         muteAndDeleteThread (if r_partial r then emit FetchReaction s else s) r sk w"
  using assms emoji_distinct
  by (auto simp: messageReactionAdd_def reaction_handled_def Let_def)

lemma handled_T1: "reaction_handled bound_state (reaction_in_T1 e) reaction_fine session_S1"
  by (simp add: reaction_handled_def scenario_defs)

text \<open>
  C2. A reaction that passes the guards of the handler (a loaded reaction by a user that
  is not a bot, in a watched thread). With the mute emoji: the thread id is added to the
  muted set, the muted set is written to its file, and the binding map, the watched
  index and the binding file are as before. With the mute+delete emoji: the thread id
  is added and written likewise, and moreover the binding of the thread's session and the
  index entry of the thread are removed and the binding map is written to its file.
\<close>

theorem reaction_mute_frame:
  assumes "reaction_handled s r w sk"
  shows "(r_emoji r = Some mute_emoji \<longrightarrow>
            (let s' = messageReactionAdd s r w in
             mutedThreads s' = set_add (r_channel_id r) (mutedThreads s) \<and>
             r_channel_id r \<in> set (mutedThreads s') \<and>
             muted_file s' = Some (mutedThreads s') \<and>
             threads s' = threads s \<and>
             watchedThreads s' = watchedThreads s \<and>
             threads_file s' = threads_file s))
       \<and> (r_emoji r = Some delete_emoji \<longrightarrow>
            (let s' = messageReactionAdd s r w in
             mutedThreads s' = set_add (r_channel_id r) (mutedThreads s) \<and>
             r_channel_id r \<in> set (mutedThreads s') \<and>
             muted_file s' = Some (mutedThreads s') \<and>
             threads s' = AList.delete sk (threads s) \<and>
             map_of (threads s') sk = None \<and>
             watchedThreads s' = (watchedThreads s)(r_channel_id r := None) \<and>
             threads_file s' = Some (threads s')))"
proof (intro conjI impI)
  assume m: "r_emoji r = Some mute_emoji"
  show "let s' = messageReactionAdd s r w in
             mutedThreads s' = set_add (r_channel_id r) (mutedThreads s) \<and>
             r_channel_id r \<in> set (mutedThreads s') \<and>
             muted_file s' = Some (mutedThreads s') \<and>
             threads s' = threads s \<and>
             watchedThreads s' = watchedThreads s \<and>
             threads_file s' = threads_file s"
    unfolding reaction_mute [OF assms m]
    by (simp add: muteThread_def Let_def set_add_member)
next
  assume d: "r_emoji r = Some delete_emoji"
  have t: "truthy sk"
    using assms by (simp add: reaction_handled_def)
  show "let s' = messageReactionAdd s r w in
             mutedThreads s' = set_add (r_channel_id r) (mutedThreads s) \<and>
             r_channel_id r \<in> set (mutedThreads s') \<and>
             muted_file s' = Some (mutedThreads s') \<and>
             threads s' = AList.delete sk (threads s) \<and>
             map_of (threads s') sk = None \<and>
             watchedThreads s' = (watchedThreads s)(r_channel_id r := None) \<and>
             threads_file s' = Some (threads s')"
    unfolding reaction_delete [OF assms d]
    by (simp add: muteAndDeleteThread_def deleteFailed_def Let_def t AList.delete_conv'
        set_add_member)
qed

text \<open>
  Scenarios B and C of the specification: from the binding \<open>S1 \<mapsto> T1\<close>, the mute
  reaction leaves the muted set \<open>[T1]\<close> and the binding; the mute+delete reaction
  leaves the muted set \<open>[T1]\<close> and no binding.
\<close>

theorem reaction_mute_frame_witness:
  "reaction_handled bound_state (reaction_in_T1 mute_emoji) reaction_fine session_S1
   \<and> mutedThreads (messageReactionAdd bound_state (reaction_in_T1 mute_emoji) reaction_fine)
       = [thread_T1]
   \<and> threads (messageReactionAdd bound_state (reaction_in_T1 mute_emoji) reaction_fine)
       = [(session_S1, thread_T1)]
   \<and> mutedThreads (messageReactionAdd bound_state (reaction_in_T1 delete_emoji) reaction_fine)
       = [thread_T1]
   \<and> threads (messageReactionAdd bound_state (reaction_in_T1 delete_emoji) reaction_fine) = []
   \<and> watchedThreads (messageReactionAdd bound_state (reaction_in_T1 delete_emoji) reaction_fine)
       thread_T1 = None"
proof -
  have m: "r_emoji (reaction_in_T1 mute_emoji) = Some mute_emoji"
    and d: "r_emoji (reaction_in_T1 delete_emoji) = Some delete_emoji"
    by (simp_all add: reaction_in_T1_def)
  have c: "r_channel_id (reaction_in_T1 e) = thread_T1" for e
    by (simp add: reaction_in_T1_def)
  have b: "mutedThreads bound_state = []" "threads bound_state = [(session_S1, thread_T1)]"
    by (simp_all add: bound_state_def initial_state_def)
  from reaction_mute_frame [OF handled_T1 [of mute_emoji]]
       reaction_mute_frame [OF handled_T1 [of delete_emoji]]
  show ?thesis
    using handled_T1 [of mute_emoji]
    by (simp add: m d c b Let_def emoji_distinct set_add_def)
qed

text \<open>
  C10. In the mute+delete branch the calls are made in this order: the muted set is
  written, the binding map (without the session's binding) is written, the countdown is
  sent; only if that send succeeds come the wait of 3000 ms and the deletion of the
  thread. Whatever the platform answers to the send and to the deletion, the final state
  has the thread muted, the binding and the index entry removed, and both files written
  with these values.
\<close>

theorem delete_reaction_persists_first:
  assumes "reaction_handled s r w sk" and "r_emoji r = Some delete_emoji"
  shows "let s' = messageReactionAdd s r w;
             tid = r_channel_id r;
             muted' = set_add tid (mutedThreads s);
             threads' = AList.delete sk (threads s)
         in effects s' =
              effects s @ (if r_partial r then [FetchReaction] else [])
                @ [SaveMuted muted', SaveThreads threads', Send tid (Content deleteNotice)]
                @ (if confirm_send_ok w
                   then [Sleep 3000, DeleteThread tid]
                          @ (if delete_ok w then []
                             else [ConsoleError (js ''[discord-notify] Failed to delete thread: '')])
                   else [ConsoleError (js ''[discord-notify] Failed to delete thread: '')])
            \<and> mutedThreads s' = muted' \<and> tid \<in> set muted' \<and> muted_file s' = Some muted'
            \<and> threads s' = threads' \<and> map_of threads' sk = None
            \<and> watchedThreads s' tid = None \<and> threads_file s' = Some threads'"
proof -
  have t: "truthy sk"
    using assms(1) by (simp add: reaction_handled_def)
  show ?thesis
    unfolding reaction_delete [OF assms]
    by (simp add: muteAndDeleteThread_def deleteFailed_def Let_def t AList.delete_conv'
        set_add_member)
qed

text \<open>
  The countdown cannot be sent: no wait, no deletion, and yet \<open>T1\<close> is muted and the
  binding of \<open>S1\<close> is gone, in the variables and in the files.
\<close>

theorem delete_reaction_persists_first_witness:
  "reaction_handled bound_state (reaction_in_T1 delete_emoji)
     (reaction_fine\<lparr>confirm_send_ok := False\<rparr>) session_S1
   \<and> r_emoji (reaction_in_T1 delete_emoji) = Some delete_emoji
   \<and> effects (messageReactionAdd bound_state (reaction_in_T1 delete_emoji)
        (reaction_fine\<lparr>confirm_send_ok := False\<rparr>))
       = [SaveMuted [thread_T1], SaveThreads [], Send thread_T1 (Content deleteNotice),
          ConsoleError (js ''[discord-notify] Failed to delete thread: '')]
   \<and> muted_file (messageReactionAdd bound_state (reaction_in_T1 delete_emoji)
        (reaction_fine\<lparr>confirm_send_ok := False\<rparr>)) = Some [thread_T1]
   \<and> threads_file (messageReactionAdd bound_state (reaction_in_T1 delete_emoji)
        (reaction_fine\<lparr>confirm_send_ok := False\<rparr>)) = Some []"
proof -
  have h: "reaction_handled bound_state (reaction_in_T1 delete_emoji)
             (reaction_fine\<lparr>confirm_send_ok := False\<rparr>) session_S1"
    by (simp add: reaction_handled_def scenario_defs)
  have d: "r_emoji (reaction_in_T1 delete_emoji) = Some delete_emoji"
    by (simp add: reaction_in_T1_def)
  have b: "mutedThreads bound_state = []" "threads bound_state = [(session_S1, thread_T1)]"
    "effects bound_state = []" "r_channel_id (reaction_in_T1 delete_emoji) = thread_T1"
    "\<not> r_partial (reaction_in_T1 delete_emoji)"
    by (simp_all add: bound_state_def initial_state_def reaction_in_T1_def)
  from delete_reaction_persists_first [OF h d]
  show ?thesis
    using h d by (simp add: b Let_def set_add_def)
qed

section \<open>Properties of the thread resolution\<close>

lemma getOrCreateThread_muted:
  assumes "muted_binding s c sk tid"
  shows "getOrCreateThread s c fe sn w = (None, s)"
  using assms
  by (auto simp: getOrCreateThread_def muted_binding_def truthy_opt_def Let_def
      split: option.splits)

lemma renameCurrentThread_frame:
  "threads (snd (renameCurrentThread s n w)) = threads s"
  "mutedThreads (snd (renameCurrentThread s n w)) = mutedThreads s"
  "client (snd (renameCurrentThread s n w)) = client s"
  "config (snd (renameCurrentThread s n w)) = config s"
  "agentStartTime (snd (renameCurrentThread s n w)) = agentStartTime s"
  "isAgentBusy (snd (renameCurrentThread s n w)) = isAgentBusy s"
  "sends (snd (renameCurrentThread s n w)) = sends s"
  by (auto simp: renameCurrentThread_def renameFailed_def Let_def split: fetched.splits)

lemma generateThreadName_frame:
  "threads (snd (generateThreadName s w)) = threads s"
  "mutedThreads (snd (generateThreadName s w)) = mutedThreads s"
  "client (snd (generateThreadName s w)) = client s"
  "config (snd (generateThreadName s w)) = config s"
  "agentStartTime (snd (generateThreadName s w)) = agentStartTime s"
  "isAgentBusy (snd (generateThreadName s w)) = isAgentBusy s"
  "currentSessionFile (snd (generateThreadName s w)) = currentSessionFile s"
  "sends (snd (generateThreadName s w)) = sends s"
  by (auto simp: generateThreadName_def Let_def split: attempt.splits)

lemma autoRename_frame:
  "threads (snd (autoRename s c w)) = threads s"
  "mutedThreads (snd (autoRename s c w)) = mutedThreads s"
  "client (snd (autoRename s c w)) = client s"
  "config (snd (autoRename s c w)) = config s"
  "agentStartTime (snd (autoRename s c w)) = agentStartTime s"
  "isAgentBusy (snd (autoRename s c w)) = isAgentBusy s"
  "sends (snd (autoRename s c w)) = sends s"
proof -
  obtain g s1 where g: "generateThreadName (s\<lparr>threadAutoNamed := True\<rparr>) (naming w) = (g, s1)"
    by (cases "generateThreadName (s\<lparr>threadAutoNamed := True\<rparr>) (naming w)")
  have f: "threads s1 = threads s" "mutedThreads s1 = mutedThreads s" "client s1 = client s"
    "config s1 = config s" "agentStartTime s1 = agentStartTime s"
    "isAgentBusy s1 = isAgentBusy s" "sends s1 = sends s"
    using generateThreadName_frame [of "s\<lparr>threadAutoNamed := True\<rparr>" "naming w"] g
    by simp_all
  show "threads (snd (autoRename s c w)) = threads s"
    "mutedThreads (snd (autoRename s c w)) = mutedThreads s"
    "client (snd (autoRename s c w)) = client s"
    "config (snd (autoRename s c w)) = config s"
    "agentStartTime (snd (autoRename s c w)) = agentStartTime s"
    "isAgentBusy (snd (autoRename s c w)) = isAgentBusy s"
    "sends (snd (autoRename s c w)) = sends s"
    by (simp_all add: autoRename_def Let_def g f renameCurrentThread_frame split: attempt.splits)
qed

lemma agent_end_muted:
  assumes "muted_binding s c sk tid"
  shows "agent_end s msgs c w = snd (autoRename (s\<lparr>isAgentBusy := False\<rparr>) c w)"
proof -
  obtain e s1 where a: "autoRename (s\<lparr>isAgentBusy := False\<rparr>) c w = (e, s1)"
    by (cases "autoRename (s\<lparr>isAgentBusy := False\<rparr>) c w")
  have "threads s1 = threads s" "mutedThreads s1 = mutedThreads s"
    using autoRename_frame(1,2) [of "s\<lparr>isAgentBusy := False\<rparr>" c w] a by simp_all
  then have "muted_binding s1 c sk tid"
    using assms by (simp add: muted_binding_def)
  then have "getOrCreateThread s1 c None (session_name w) (resolve w) = (None, s1)"
    by (rule getOrCreateThread_muted)
  then show ?thesis
    by (cases e) (simp_all add: agent_end_def agent_end_handler_def a Let_def split: option.splits)
qed

lemma tool_result_muted:
  assumes "muted_binding s c sk tid"
  shows "tool_result s ev c w = s"
  by (simp add: tool_result_def Let_def getOrCreateThread_muted [OF assms])

lemma set_delete_absent: "x \<notin> set (set_delete x xs)"
  by (simp add: set_delete_def)

lemma discord_unmute_muted:
  assumes "muted_binding s c sk tid" and "currentSessionFile s = Some sk"
  shows "mutedThreads (discord_unmute s f) = set_delete tid (mutedThreads s)"
    and "threads (discord_unmute s f) = threads s"
    and "muted_file (discord_unmute s f) = Some (set_delete tid (mutedThreads s))"
  using assms
  by (auto simp: discord_unmute_def muted_binding_def truthy_opt_def Let_def
      split: fetched.splits)

text \<open>
  C3. When the session of the context is bound to a thread of the muted set,
  \<^verbatim>\<open>getOrCreateThread\<close> returns \<^verbatim>\<open>null\<close> and leaves the state and the log of
  calls as they are: no fetch, no creation, no send. Hence its three callers send
  nothing: \<^verbatim>\<open>notify\<close> returns \<^verbatim>\<open>false\<close> and the \<^verbatim>\<open>tool_result\<close> handler
  returns without any call, and the \<^verbatim>\<open>agent_end\<close> handler adds no send and leaves
  the session bound to the muted thread. The \<^verbatim>\<open>/discord-unmute\<close> command of that
  session takes the thread out of the muted set and writes the set, keeping the binding.
\<close>

theorem muted_session_resolves_to_null:
  assumes "muted_binding s c sk tid"
  shows "getOrCreateThread s c firstEmbed sn w = (None, s)
       \<and> notify s e c sn w send_ok = (False, s)
       \<and> tool_result s ev c tw = s
       \<and> sends (agent_end s msgs c aw) = sends s
       \<and> muted_binding (agent_end s msgs c aw) c sk tid
       \<and> (currentSessionFile s = Some sk \<longrightarrow>
            tid \<notin> set (mutedThreads (discord_unmute s f))
            \<and> muted_file (discord_unmute s f) = Some (mutedThreads (discord_unmute s f))
            \<and> map_of (threads (discord_unmute s f)) sk = Some tid)"
proof (intro conjI impI)
  show "getOrCreateThread s c firstEmbed sn w = (None, s)"
    using assms by (rule getOrCreateThread_muted)
  show "notify s e c sn w send_ok = (False, s)"
    by (simp add: notify_def Let_def getOrCreateThread_muted [OF assms])
  show "tool_result s ev c tw = s"
    using assms by (rule tool_result_muted)
  show "sends (agent_end s msgs c aw) = sends s"
    by (simp add: agent_end_muted [OF assms] autoRename_frame)
  show "muted_binding (agent_end s msgs c aw) c sk tid"
    using assms by (simp add: agent_end_muted [OF assms] muted_binding_def autoRename_frame)
next
  assume cur: "currentSessionFile s = Some sk"
  show "tid \<notin> set (mutedThreads (discord_unmute s f))"
    by (simp add: discord_unmute_muted [OF assms cur] set_delete_absent)
  show "muted_file (discord_unmute s f) = Some (mutedThreads (discord_unmute s f))"
    by (simp add: discord_unmute_muted [OF assms cur])
  show "map_of (threads (discord_unmute s f)) sk = Some tid"
    using assms by (simp add: discord_unmute_muted [OF assms cur] muted_binding_def)
qed

text \<open>
  Scenario B, second half: with \<open>T1\<close> muted, the resolution for \<open>S1\<close> is null and
  makes no call; after the unmute command nothing is muted.
\<close>

theorem muted_session_resolves_to_null_witness:
  "muted_binding (bound_state\<lparr>mutedThreads := [thread_T1]\<rparr>) scenario_ctx session_S1 thread_T1
   \<and> currentSessionFile (bound_state\<lparr>mutedThreads := [thread_T1]\<rparr>) = Some session_S1
   \<and> fst (getOrCreateThread (bound_state\<lparr>mutedThreads := [thread_T1]\<rparr>) scenario_ctx None None
        resolve_fine) = None
   \<and> effects (snd (getOrCreateThread (bound_state\<lparr>mutedThreads := [thread_T1]\<rparr>) scenario_ctx
        None None resolve_fine)) = []
   \<and> mutedThreads (discord_unmute (bound_state\<lparr>mutedThreads := [thread_T1]\<rparr>)
        (FetchThread False)) = []"
proof -
  have h: "muted_binding (bound_state\<lparr>mutedThreads := [thread_T1]\<rparr>) scenario_ctx
             session_S1 thread_T1"
    by (simp add: muted_binding_def scenario_defs)
  have k: "currentSessionFile (bound_state\<lparr>mutedThreads := [thread_T1]\<rparr>) = Some session_S1"
    by (simp add: bound_state_def)
  have u: "mutedThreads (discord_unmute (bound_state\<lparr>mutedThreads := [thread_T1]\<rparr>)
             (FetchThread False)) = []"
    by (simp add: discord_unmute_muted [OF h k] set_delete_def)
  from muted_session_resolves_to_null
         [OF h, where firstEmbed = None and sn = None and w = resolve_fine]
  show ?thesis
    using h k u by (simp add: bound_state_def initial_state_def)
qed

lemma tryExisting_throws:
  assumes "fetch_existing w = FetchThrows" and "truthy sk"
  shows "tryExistingThread s (Some sk) tid w =
           (None, saveThreads ((emit (FetchChannel tid) s)
              \<lparr>threads := AList.delete sk (threads s),
                watchedThreads := (watchedThreads s)(tid := None)\<rparr>))"
  using assms by (simp add: tryExistingThread_def evictBinding_def truthy_opt_def Let_def)

lemma getOrCreateThread_stale:
  assumes "stale_binding s c w sk tid" and "config s = Some cfg"
  shows "getOrCreateThread s c fe sn w =
           createThread (saveThreads ((emit (FetchChannel tid) s)
              \<lparr>threads := AList.delete sk (threads s),
                watchedThreads := (watchedThreads s)(tid := None)\<rparr>))
             cfg (Some sk) (makeThreadName c sn) fe w"
  using assms
  by (auto simp: getOrCreateThread_def stale_binding_def truthy_opt_def Let_def
      tryExisting_throws split: option.splits)

lemma map_of_insert_indexed:
  "map_of al k = None \<Longrightarrow> map_of (insert_indexed n k v al) = (map_of al)(k \<mapsto> v)"
proof (induction al)
  case Nil
  then show ?case by simp
next
  case (Cons e al)
  then have ne: "fst e \<noteq> k" and rest: "map_of al k = None"
    by (cases e; simp split: if_splits)+
  show ?case
    using Cons.IH [OF rest] ne
    by (cases e) (auto split: option.splits)
qed

lemma map_of_js_assign: "map_of (js_assign k v al) = (map_of al)(k \<mapsto> v)"
proof (cases "map_of al k")
  case None
  then have "map_of (al @ [(k, v)]) = (map_of al)(k \<mapsto> v)"
    by (auto simp: map_add_def fun_eq_iff split: option.splits)
  then show ?thesis
    using None by (simp add: js_assign_def map_of_insert_indexed split: option.splits)
next
  case (Some a)
  then show ?thesis
    by (simp add: js_assign_def AList.update_conv')
qed

text \<open>
  The calls of a creation that succeeds, after the fetch of the configured channel: in a
  forum, the creation of the thread with its first message (the embed, or the line that
  announces the session); in a text channel, the creation of the thread and then, if
  there is an embed, its send into the new thread.
\<close>

lemma createThread_succeeds:
  assumes "truthy sk" and "creation_succeeds fe w new"
  shows "createThread s cfg (Some sk) n fe w =
           (Some new,
            saveThreads
              ((s\<lparr>effects := effects s @ FetchChannel (channelId cfg) # creation_calls cfg n fe w new\<rparr>)
                 \<lparr>threads := js_assign sk new (threads s),
                   watchedThreads := (watchedThreads s)(new \<mapsto> sk)\<rparr>))"
  using assms
  by (auto simp: createThread_def recordBinding_def creation_succeeds_def creation_calls_def
      truthy_opt_def Let_def emit_def saveThreads_def split: option.splits)

lemma createThread_fails:
  assumes "creation_fails fe w"
  shows "fst (createThread s cfg k n fe w) = None"
    and "threads (snd (createThread s cfg k n fe w)) = threads s"
    and "watchedThreads (snd (createThread s cfg k n fe w)) = watchedThreads s"
    and "threads_file (snd (createThread s cfg k n fe w)) = threads_file s"
    and "\<exists>es. effects (snd (createThread s cfg k n fe w)) = effects s @ es
              \<and> (\<forall>ts. SaveThreads ts \<notin> set es)"
  using assms
  by (auto simp: createThread_def createFailed_def creation_fails_def Let_def
      split: channel_kind.splits option.splits)

lemma createThread_result_id:
  "fst (createThread s cfg k n fe w) = None \<or> fst (createThread s cfg k n fe w) = created w"
  by (auto simp: createThread_def createFailed_def Let_def
      split: channel_kind.splits option.splits)

text \<open>
  C4. When the session of the context is bound to a thread whose fetch throws, the
  resolution fetches it, writes the binding map without the session's binding (the index
  entry of the stale thread goes with it), fetches the configured channel and asks the
  platform for a new thread. When the platform creates the thread \<open>new\<close>, the log of
  calls is exactly: fetch of the stale thread, write of the map without the binding,
  fetch of the channel, the creation (a forum thread named by \<^verbatim>\<open>makeThreadName\<close>
  with its first message, or a text-channel thread followed by the send of the embed if
  there is one), write of the map with the new binding; the result is \<open>new\<close>, bound to
  the session in the map, the index and the file. When the platform creates none, the
  result is null, the eviction stands and the map is not written again. The result is the
  stale id only if the platform hands that very id to the new thread.
\<close>

theorem stale_binding_is_evicted_and_recreated:
  assumes "stale_binding s c w sk tid" and "config s = Some cfg"
  shows "(case getOrCreateThread s c firstEmbed sn w of (r, s') \<Rightarrow>
           (creation_succeeds firstEmbed w new \<longrightarrow>
              r = Some new \<and>
              effects s' =
                effects s
                  @ [FetchChannel tid, SaveThreads (AList.delete sk (threads s)),
                     FetchChannel (channelId cfg)]
                  @ (if fetch_channel w = GuildForum
                     then [CreateForumThread (channelId cfg) (makeThreadName c sn)
                             (case firstEmbed of
                                Some e \<Rightarrow> Embeds e
                              | None \<Rightarrow>
                                  Content ([0xD83E, 0xDD16] @ js '' pi session started''
                                           @ [0x20, 0x2014, 0x20] @ makeThreadName c sn))]
                     else CreateTextThread (channelId cfg) (makeThreadName c sn)
                            # (case firstEmbed of
                                 Some e \<Rightarrow> [Send new (Embeds e)]
                               | None \<Rightarrow> []))
                  @ [SaveThreads (js_assign sk new (AList.delete sk (threads s)))] \<and>
              threads s' = js_assign sk new (AList.delete sk (threads s)) \<and>
              map_of (threads s') sk = Some new \<and>
              watchedThreads s' = ((watchedThreads s)(tid := None))(new \<mapsto> sk) \<and>
              threads_file s' = Some (threads s'))
         \<and> (creation_fails firstEmbed w \<longrightarrow>
              r = None \<and>
              (\<exists>es. effects s' =
                      effects s
                        @ [FetchChannel tid, SaveThreads (AList.delete sk (threads s))] @ es
                    \<and> (\<forall>ts. SaveThreads ts \<notin> set es)) \<and>
              threads s' = AList.delete sk (threads s) \<and>
              map_of (threads s') sk = None \<and>
              watchedThreads s' = (watchedThreads s)(tid := None) \<and>
              threads_file s' = Some (threads s'))
         \<and> (created w \<noteq> Some tid \<longrightarrow> r \<noteq> Some tid))"
proof -
  have sk: "truthy sk"
    using assms(1) by (simp add: stale_binding_def)
  let ?s1 = "saveThreads ((emit (FetchChannel tid) s)
              \<lparr>threads := AList.delete sk (threads s),
                watchedThreads := (watchedThreads s)(tid := None)\<rparr>)"
  let ?n = "makeThreadName c sn"
  have g: "getOrCreateThread s c firstEmbed sn w = createThread ?s1 cfg (Some sk) ?n firstEmbed w"
    by (rule getOrCreateThread_stale [OF assms])
  have ok: "creation_succeeds firstEmbed w new \<longrightarrow>
              createThread ?s1 cfg (Some sk) ?n firstEmbed w =
                (Some new,
                 saveThreads
                   ((?s1\<lparr>effects := effects ?s1
                             @ FetchChannel (channelId cfg) # creation_calls cfg ?n firstEmbed w new\<rparr>)
                      \<lparr>threads := js_assign sk new (threads ?s1),
                        watchedThreads := (watchedThreads ?s1)(new \<mapsto> sk)\<rparr>))"
    using createThread_succeeds [OF sk, of firstEmbed w new ?s1 cfg ?n] by simp
  have calls: "creation_succeeds firstEmbed w new \<longrightarrow>
          creation_calls cfg ?n firstEmbed w new =
            (if fetch_channel w = GuildForum
             then [CreateForumThread (channelId cfg) ?n
                     (case firstEmbed of
                        Some e \<Rightarrow> Embeds e
                      | None \<Rightarrow>
                          Content ([0xD83E, 0xDD16] @ js '' pi session started''
                                   @ [0x20, 0x2014, 0x20] @ ?n))]
             else CreateTextThread (channelId cfg) ?n
                    # (case firstEmbed of Some e \<Rightarrow> [Send new (Embeds e)] | None \<Rightarrow> []))"
    by (auto simp: creation_calls_def creation_succeeds_def sessionStartedMessage_def
        dash_sep_def split: option.splits)
  have bad: "creation_fails firstEmbed w \<longrightarrow>
               fst (createThread ?s1 cfg (Some sk) ?n firstEmbed w) = None
             \<and> threads (snd (createThread ?s1 cfg (Some sk) ?n firstEmbed w)) = threads ?s1
             \<and> watchedThreads (snd (createThread ?s1 cfg (Some sk) ?n firstEmbed w))
                 = watchedThreads ?s1
             \<and> threads_file (snd (createThread ?s1 cfg (Some sk) ?n firstEmbed w))
                 = threads_file ?s1
             \<and> (\<exists>es. effects (snd (createThread ?s1 cfg (Some sk) ?n firstEmbed w))
                        = effects ?s1 @ es
                      \<and> (\<forall>ts. SaveThreads ts \<notin> set es))"
    using createThread_fails [of firstEmbed w ?s1 cfg "Some sk" ?n] by blast
  have rid: "fst (createThread ?s1 cfg (Some sk) ?n firstEmbed w) = None
           \<or> fst (createThread ?s1 cfg (Some sk) ?n firstEmbed w) = created w"
    by (rule createThread_result_id)
  obtain r s' where rs: "createThread ?s1 cfg (Some sk) ?n firstEmbed w = (r, s')"
    by (cases "createThread ?s1 cfg (Some sk) ?n firstEmbed w")
  have c1: "creation_succeeds firstEmbed w new \<longrightarrow>
              r = Some new \<and>
              effects s' =
                effects s
                  @ [FetchChannel tid, SaveThreads (AList.delete sk (threads s)),
                     FetchChannel (channelId cfg)]
                  @ (if fetch_channel w = GuildForum
                     then [CreateForumThread (channelId cfg) ?n
                             (case firstEmbed of
                                Some e \<Rightarrow> Embeds e
                              | None \<Rightarrow>
                                  Content ([0xD83E, 0xDD16] @ js '' pi session started''
                                           @ [0x20, 0x2014, 0x20] @ ?n))]
                     else CreateTextThread (channelId cfg) ?n
                            # (case firstEmbed of
                                 Some e \<Rightarrow> [Send new (Embeds e)]
                               | None \<Rightarrow> []))
                  @ [SaveThreads (js_assign sk new (AList.delete sk (threads s)))] \<and>
              threads s' = js_assign sk new (AList.delete sk (threads s)) \<and>
              map_of (threads s') sk = Some new \<and>
              watchedThreads s' = ((watchedThreads s)(tid := None))(new \<mapsto> sk) \<and>
              threads_file s' = Some (threads s')"
  proof
    assume cs: "creation_succeeds firstEmbed w new"
    have "(r, s') =
            (Some new,
             saveThreads
               ((?s1\<lparr>effects := effects ?s1
                         @ FetchChannel (channelId cfg) # creation_calls cfg ?n firstEmbed w new\<rparr>)
                  \<lparr>threads := js_assign sk new (threads ?s1),
                    watchedThreads := (watchedThreads ?s1)(new \<mapsto> sk)\<rparr>))"
      using ok cs rs by simp
    then show "r = Some new \<and>
              effects s' =
                effects s
                  @ [FetchChannel tid, SaveThreads (AList.delete sk (threads s)),
                     FetchChannel (channelId cfg)]
                  @ (if fetch_channel w = GuildForum
                     then [CreateForumThread (channelId cfg) ?n
                             (case firstEmbed of
                                Some e \<Rightarrow> Embeds e
                              | None \<Rightarrow>
                                  Content ([0xD83E, 0xDD16] @ js '' pi session started''
                                           @ [0x20, 0x2014, 0x20] @ ?n))]
                     else CreateTextThread (channelId cfg) ?n
                            # (case firstEmbed of
                                 Some e \<Rightarrow> [Send new (Embeds e)]
                               | None \<Rightarrow> []))
                  @ [SaveThreads (js_assign sk new (AList.delete sk (threads s)))] \<and>
              threads s' = js_assign sk new (AList.delete sk (threads s)) \<and>
              map_of (threads s') sk = Some new \<and>
              watchedThreads s' = ((watchedThreads s)(tid := None))(new \<mapsto> sk) \<and>
              threads_file s' = Some (threads s')"
      using calls cs by (simp add: map_of_js_assign)
  qed
  have c2: "creation_fails firstEmbed w \<longrightarrow>
              r = None \<and>
              (\<exists>es. effects s' =
                      effects s
                        @ [FetchChannel tid, SaveThreads (AList.delete sk (threads s))] @ es
                    \<and> (\<forall>ts. SaveThreads ts \<notin> set es)) \<and>
              threads s' = AList.delete sk (threads s) \<and>
              map_of (threads s') sk = None \<and>
              watchedThreads s' = (watchedThreads s)(tid := None) \<and>
              threads_file s' = Some (threads s')"
    using bad rs by (auto simp: AList.delete_conv')
  have c3: "created w \<noteq> Some tid \<longrightarrow> r \<noteq> Some tid"
    using rid rs by auto
  from c1 c2 c3 show ?thesis
    unfolding g rs by (simp only: prod.case)
qed

text \<open>
  The thread \<open>T1\<close> bound to \<open>S1\<close> is gone; the platform creates \<open>T2\<close> in the
  forum: the resolution returns \<open>T2\<close>, the binding map is \<open>S1 \<mapsto> T2\<close>, and the log
  holds the creation of the forum thread named \<open>proj \<emdash> new session\<close>.
\<close>

theorem stale_binding_is_evicted_and_recreated_witness:
  "stale_binding bound_state scenario_ctx (resolve_fine\<lparr>fetch_existing := FetchThrows\<rparr>)
     session_S1 thread_T1
   \<and> config bound_state = Some scenario_config
   \<and> creation_succeeds None (resolve_fine\<lparr>fetch_existing := FetchThrows\<rparr>) thread_T2
   \<and> fst (getOrCreateThread bound_state scenario_ctx None None
        (resolve_fine\<lparr>fetch_existing := FetchThrows\<rparr>)) = Some thread_T2
   \<and> threads (snd (getOrCreateThread bound_state scenario_ctx None None
        (resolve_fine\<lparr>fetch_existing := FetchThrows\<rparr>))) = [(session_S1, thread_T2)]
   \<and> effects (snd (getOrCreateThread bound_state scenario_ctx None None
        (resolve_fine\<lparr>fetch_existing := FetchThrows\<rparr>)))
       = [FetchChannel thread_T1, SaveThreads [], FetchChannel (js ''C1''),
          CreateForumThread (js ''C1'') (js ''proj'' @ dash_sep @ js ''new session'')
            (Content ([0xD83E, 0xDD16] @ js '' pi session started'' @ dash_sep
                      @ js ''proj'' @ dash_sep @ js ''new session'')),
          SaveThreads [(session_S1, thread_T2)]]
   \<and> thread_T2 \<noteq> thread_T1"
proof -
  define w where "w = resolve_fine\<lparr>fetch_existing := FetchThrows\<rparr>"
  have h: "stale_binding bound_state scenario_ctx w session_S1 thread_T1"
    by (simp add: w_def stale_binding_def scenario_defs)
  have cf: "config bound_state = Some scenario_config"
    by (simp add: bound_state_def initial_state_def)
  have k: "creation_succeeds None w thread_T2"
    by (simp add: w_def creation_succeeds_def resolve_fine_def)
  have b: "threads bound_state = [(session_S1, thread_T1)]" "effects bound_state = []"
    by (simp_all add: bound_state_def initial_state_def)
  have n: "thread_T2 \<noteq> thread_T1"
    by (simp add: thread_T1_def thread_T2_def js_def)
  have a: "js_assign session_S1 thread_T2 [] = [(session_S1, thread_T2)]"
    by (simp add: js_assign_def array_index_def session_S1_def js_def is_digit_def)
  have f: "fetch_channel w = GuildForum" "channelId scenario_config = js ''C1''"
    by (simp_all add: w_def resolve_fine_def scenario_config_def)
  have m: "makeThreadName scenario_ctx None = js ''proj'' @ dash_sep @ js ''new session''"
    by (simp add: makeThreadName_def truthy_opt_def truncateText_def scenario_ctx_def js_def
        dash_sep_def)
  have d: "[0x20, 0x2014, 0x20] = dash_sep"
    by (simp add: dash_sep_def)
  obtain r s' where rs: "getOrCreateThread bound_state scenario_ctx None None w = (r, s')"
    by (cases "getOrCreateThread bound_state scenario_ctx None None w")
  from stale_binding_is_evicted_and_recreated
         [OF h cf, where firstEmbed = None and sn = None and new = thread_T2]
  have "r = Some thread_T2 \<and> threads s' = [(session_S1, thread_T2)]
        \<and> effects s'
            = [FetchChannel thread_T1, SaveThreads [], FetchChannel (js ''C1''),
               CreateForumThread (js ''C1'') (js ''proj'' @ dash_sep @ js ''new session'')
                 (Content ([0xD83E, 0xDD16] @ js '' pi session started'' @ dash_sep
                           @ js ''proj'' @ dash_sep @ js ''new session'')),
               SaveThreads [(session_S1, thread_T2)]]"
    unfolding rs using k by (simp add: b a f m d)
  then show ?thesis
    using h cf k n unfolding w_def [symmetric] rs by simp
qed

section \<open>Properties of the bot lifecycle\<close>

lemma startBotTry_outcome:
  "(connect_fails s w \<longrightarrow> (\<exists>m s1. startBotTry s tok w = (Inl m, s1)))
   \<and> (\<not> connect_fails s w \<longrightarrow> (\<exists>s1. startBotTry s tok w = (Inr (), s1) \<and> client s1 = Some Client))"
  by (auto simp: startBotTry_def connect_fails_def Let_def split: option.splits)

text \<open>
  What \<^verbatim>\<open>startBot\<close> returns and what it leaves in the variable
  \<^verbatim>\<open>client\<close>. It always resolves to a result object and never throws. Without
  the token it reports \<open>ok = False\<close> with the fixed error text and changes nothing (no
  client is created, no login is made). With the token and a client already held it
  reports \<open>ok = True\<close> and changes nothing. With the token and no client, a failing
  connection attempt is reported as \<open>ok = False\<close> with the text of the error and
  leaves the variable null; a successful one is reported as \<open>ok = True\<close> and holds a
  client.
\<close>

lemma startBot_cases:
  "(\<exists>r. fst (startBot s w) = Inr r)
   \<and> (\<not> truthy_opt (bot_token w) \<longrightarrow>
        startBot s w = (Inr \<lparr>ok = False, error = Some missing_token_error\<rparr>, s))
   \<and> (truthy_opt (bot_token w) \<and> client s \<noteq> None \<longrightarrow>
        startBot s w = (Inr \<lparr>ok = True, error = None\<rparr>, s))
   \<and> (truthy_opt (bot_token w) \<and> client s = None \<and> connect_fails s w \<longrightarrow>
        (\<exists>m. fst (startBot s w) = Inr \<lparr>ok = False, error = Some m\<rparr>)
        \<and> client (snd (startBot s w)) = None)
   \<and> (truthy_opt (bot_token w) \<and> client s = None \<and> \<not> connect_fails s w \<longrightarrow>
        fst (startBot s w) = Inr \<lparr>ok = True, error = None\<rparr>
        \<and> client (snd (startBot s w)) = Some Client)"
proof -
  have a: "\<exists>r. fst (startBot s w) = Inr r"
    by (auto simp: startBot_def split: prod.splits sum.splits)
  have b: "\<not> truthy_opt (bot_token w) \<longrightarrow>
        startBot s w = (Inr \<lparr>ok = False, error = Some missing_token_error\<rparr>, s)"
    by (simp add: startBot_def)
  have c: "truthy_opt (bot_token w) \<and> client s \<noteq> None \<longrightarrow>
        startBot s w = (Inr \<lparr>ok = True, error = None\<rparr>, s)"
    by (simp add: startBot_def)
  have d: "truthy_opt (bot_token w) \<and> client s = None \<and> connect_fails s w \<longrightarrow>
        (\<exists>m. fst (startBot s w) = Inr \<lparr>ok = False, error = Some m\<rparr>)
        \<and> client (snd (startBot s w)) = None"
    using startBotTry_outcome [of s w "the (bot_token w)"]
    by (auto simp: startBot_def)
  have e: "truthy_opt (bot_token w) \<and> client s = None \<and> \<not> connect_fails s w \<longrightarrow>
        fst (startBot s w) = Inr \<lparr>ok = True, error = None\<rparr>
        \<and> client (snd (startBot s w)) = Some Client"
    using startBotTry_outcome [of s w "the (bot_token w)"]
    by (auto simp: startBot_def)
  from a b c d e show ?thesis by blast
qed

text \<open>
  The four cases: no token; a second start while connected; a rejected login; a first
  start that succeeds (and rebuilds the watched index from the binding \<open>S1 \<mapsto> T1\<close>).
\<close>

lemma startBot_cases_example:
  "\<not> truthy_opt (bot_token (start_fine\<lparr>bot_token := None\<rparr>))
   \<and> startBot unbound_state (start_fine\<lparr>bot_token := None\<rparr>)
       = (Inr \<lparr>ok = False, error = Some missing_token_error\<rparr>, unbound_state)
   \<and> truthy_opt (bot_token start_fine) \<and> client bound_state \<noteq> None
   \<and> startBot bound_state start_fine = (Inr \<lparr>ok = True, error = None\<rparr>, bound_state)
   \<and> client unbound_state = None
   \<and> connect_fails unbound_state (start_fine\<lparr>login_error := Some (js ''bad token'')\<rparr>)
   \<and> fst (startBot unbound_state (start_fine\<lparr>login_error := Some (js ''bad token'')\<rparr>))
       = Inr \<lparr>ok = False, error = Some (js ''bad token'')\<rparr>
   \<and> client (snd (startBot unbound_state (start_fine\<lparr>login_error := Some (js ''bad token'')\<rparr>)))
       = None
   \<and> \<not> connect_fails unbound_state start_fine
   \<and> client (snd (startBot unbound_state start_fine)) = Some Client
   \<and> watchedThreads (snd (startBot unbound_state start_fine)) thread_T1 = Some session_S1"
proof -
  have t: "truthy_opt (bot_token start_fine)"
    "\<not> truthy_opt (bot_token (start_fine\<lparr>bot_token := None\<rparr>))"
    "truthy_opt (bot_token (start_fine\<lparr>login_error := Some (js ''bad token'')\<rparr>))"
    by (simp_all add: start_fine_def truthy_opt_def truthy_def js_def)
  have c: "client bound_state \<noteq> None" "client unbound_state = None"
    "config unbound_state = Some scenario_config"
    by (simp_all add: bound_state_def unbound_state_def initial_state_def)
  have f: "connect_fails unbound_state (start_fine\<lparr>login_error := Some (js ''bad token'')\<rparr>)"
    "\<not> connect_fails unbound_state start_fine"
    by (simp_all add: connect_fails_def start_fine_def c)
  have e: "fst (startBot unbound_state (start_fine\<lparr>login_error := Some (js ''bad token'')\<rparr>))
       = Inr \<lparr>ok = False, error = Some (js ''bad token'')\<rparr>"
    by (simp add: startBot_def startBotTry_def c Let_def start_fine_def truthy_opt_def
        truthy_def js_def)
  have w: "watchedThreads (snd (startBot unbound_state start_fine)) thread_T1 = Some session_S1"
    by (simp add: startBot_def startBotTry_def Let_def start_fine_def rebuildWatched_def
        unbound_state_def initial_state_def scenario_config_def truthy_opt_def truthy_def js_def)
  from startBot_cases [of unbound_state "start_fine\<lparr>bot_token := None\<rparr>"]
       startBot_cases [of bound_state start_fine]
       startBot_cases [of unbound_state "start_fine\<lparr>login_error := Some (js ''bad token'')\<rparr>"]
       startBot_cases [of unbound_state start_fine]
  show ?thesis
    using t c f e w by simp
qed

lemma startBot_never_destroys:
  "\<exists>es. effects (snd (startBot s w)) = effects s @ es \<and> Destroy \<notin> set es"
  by (auto simp: startBot_def startBotTry_def Let_def split: option.splits)

text \<open>
  C7, where the code departs from it. The token is set, no client is held, the login
  succeeds and the fetch of the configured channel throws. \<^verbatim>\<open>startBot\<close> reports
  \<open>ok = False\<close> with the text of the error and sets the variable \<^verbatim>\<open>client\<close> to
  null, but its \<^verbatim>\<open>catch\<close> makes no call of \<^verbatim>\<open>destroy\<close>: the client that
  has logged in is only dropped. The next start creates a second client and logs in
  again, and still nothing is destroyed. \<^verbatim>\<open>stopBot\<close>, for comparison, destroys the
  client before it clears the variable.
\<close>

theorem failed_start_drops_logged_in_client:
  "fst (startBot unbound_state start_channel_gone)
     = Inr \<lparr>ok = False, error = Some (js ''Unknown Channel'')\<rparr>
   \<and> client (snd (startBot unbound_state start_channel_gone)) = None
   \<and> effects (snd (startBot unbound_state start_channel_gone))
       = [NewClient, Login (js ''token''), FetchChannel (js ''C1'')]
   \<and> effects (snd (startBot (snd (startBot unbound_state start_channel_gone)) start_fine))
       = [NewClient, Login (js ''token''), FetchChannel (js ''C1''),
          NewClient, Login (js ''token''), FetchChannel (js ''C1'')]
   \<and> effects (stopBot bound_state) = [Destroy]
   \<and> client (stopBot bound_state) = None"
  by code_simp

section \<open>Properties of the outbound notifications\<close>




lemma turn_ends_after_rename:
  "autoRename (s\<lparr>isAgentBusy := False\<rparr>) c w = (Aborted, s1) \<Longrightarrow>
     agent_end_handler s msgs c w = (Aborted, s1)"
  by (simp add: agent_end_handler_def)



section \<open>Properties of the inbound messages\<close>

lemma turns_emit [simp]: "turns (emit e s) = turns s @ turn_of e"
  by (simp add: turns_def)

lemma replies_emit [simp]: "replies (emit e s) = replies s @ reply_of e"
  by (simp add: replies_def)

lemma transcribe_frame:
  "turns (snd (transcribeVoiceMessage s url v)) = turns s"
  "replies (snd (transcribeVoiceMessage s url v)) = replies s"
  "isAgentBusy (snd (transcribeVoiceMessage s url v)) = isAgentBusy s"
  by (auto simp: transcribeVoiceMessage_def transcriptionFailed_def Let_def
      split: http_response.splits asr_result.splits option.splits)

lemma transcribe_truthy:
  "fst (transcribeVoiceMessage s url v) = Some t \<Longrightarrow> truthy t"
  by (auto simp: transcribeVoiceMessage_def transcriptionFailed_def Let_def
      split: http_response.splits asr_result.splits option.splits if_splits)

lemma download_frame:
  "turns (snd (downloadImageAsBase64 s url w)) = turns s"
  "replies (snd (downloadImageAsBase64 s url w)) = replies s"
  "isAgentBusy (snd (downloadImageAsBase64 s url w)) = isAgentBusy s"
  by (auto simp: downloadImageAsBase64_def Let_def split: http_response.splits)

lemma download_fails_None:
  "download_fails w url \<Longrightarrow> fst (downloadImageAsBase64 s url w) = None"
  by (auto simp: downloadImageAsBase64_def download_fails_def Let_def split: http_response.splits)

lemma downloadImages_frame:
  "turns (snd (downloadImages s as w)) = turns s
   \<and> replies (snd (downloadImages s as w)) = replies s
   \<and> isAgentBusy (snd (downloadImages s as w)) = isAgentBusy s"
proof (induction as arbitrary: s)
  case Nil
  then show ?case by simp
next
  case (Cons a as)
  obtain d s1 where d: "downloadImageAsBase64 s (a_url a) w = (d, s1)"
    by (cases "downloadImageAsBase64 s (a_url a) w")
  obtain r s2 where r: "downloadImages s1 as w = (r, s2)"
    by (cases "downloadImages s1 as w")
  have "turns s1 = turns s" "replies s1 = replies s" "isAgentBusy s1 = isAgentBusy s"
    using download_frame [of s "a_url a" w] d by simp_all
  moreover have "turns s2 = turns s1" "replies s2 = replies s1" "isAgentBusy s2 = isAgentBusy s1"
    using Cons.IH [of s1] r by simp_all
  ultimately show ?case
    by (simp add: d r)
qed

lemma downloadImages_all_fail:
  "\<forall>a \<in> set as. download_fails w (a_url a) \<Longrightarrow> fst (downloadImages s as w) = []"
proof (induction as arbitrary: s)
  case Nil
  then show ?case by simp
next
  case (Cons a as)
  obtain d s1 where d: "downloadImageAsBase64 s (a_url a) w = (d, s1)"
    by (cases "downloadImageAsBase64 s (a_url a) w")
  obtain r s2 where r: "downloadImages s1 as w = (r, s2)"
    by (cases "downloadImages s1 as w")
  have "d = None"
    using download_fails_None [of w "a_url a" s] Cons.prems d by simp
  moreover have "r = []"
    using Cons.IH [of s1] Cons.prems r by simp
  ultimately show ?case
    by (simp add: d r)
qed

lemma deliver_log:
  "turns (deliver s x k w) = turns s @ [(x, delivery_mode s)]"
  "replies (deliver s x k w) = replies s"
  by (simp_all add: deliver_def delivery_mode_def Let_def)

lemma deliverText_log:
  "turns (deliverText s t w) = turns s @ (if truthy t then [(Plain t, delivery_mode s)] else [])"
  "replies (deliverText s t w) = replies s"
  by (simp_all add: deliverText_def deliver_log)

lemma deliverImages_log:
  "turns (deliverImages s t as w) =
     turns s @ (let imgs = fst (downloadImages s as w) in
                if truthy t then [(Parts (TextPart t # imgs), delivery_mode s)]
                else if imgs = [] then []
                else [(Parts (TextPart default_caption # imgs), delivery_mode s)])"
  "replies (deliverImages s t as w) = replies s"
proof -
  obtain imgs s1 where d: "downloadImages s as w = (imgs, s1)"
    by (cases "downloadImages s as w")
  have f: "turns s1 = turns s" "replies s1 = replies s" "isAgentBusy s1 = isAgentBusy s"
    using downloadImages_frame [of s as w] d by simp_all
  have m: "delivery_mode s1 = delivery_mode s"
    using f by (simp add: delivery_mode_def)
  show "turns (deliverImages s t as w) =
     turns s @ (let imgs = fst (downloadImages s as w) in
                if truthy t then [(Parts (TextPart t # imgs), delivery_mode s)]
                else if imgs = [] then []
                else [(Parts (TextPart default_caption # imgs), delivery_mode s)])"
    by (simp add: deliverImages_def d deliver_log f m Let_def)
  show "replies (deliverImages s t as w) = replies s"
    by (simp add: deliverImages_def d deliver_log f Let_def)
qed

lemma delivery_mode_emit [simp]: "delivery_mode (emit e s) = delivery_mode s"
  by (simp add: delivery_mode_def)

lemma accepts_in_T1: "accepts bound_state (message_in_T1 mid text v atts)"
  by (simp add: accepts_def message_in_T1_def scenario_defs)

lemma transcriptionEcho_text:
  "transcriptionEcho t = [0xD83C, 0xDF99, 0xFE0F, 0x20, 0x2A, 0x22] @ t @ [0x22, 0x2A]"
  by (simp add: transcriptionEcho_def microphone_def js_def)

text \<open>
  C5. An accepted message with a voice attachment. Its handler acknowledges it with a
  reaction and is suspended. When the handler resumes, whatever the state \<open>s'\<close> of
  that moment: if the transcription yields the text \<open>t\<close>, one reply is posted to the
  message, whose content is the microphone emoji, a space, an asterisk, a double quote,
  the text \<open>t\<close> itself unchanged, a double quote and an asterisk, and one turn is
  delivered, which is \<open>t\<close> itself, or, when the message also has image attachments,
  parts that begin with the text part \<open>t\<close>; if the transcription yields nothing, one
  reply is posted, the cross mark and the text of the failure, and no turn is delivered.
\<close>

theorem voice_round_trip:
  assumes "accepts s m" and "voiceAttachment m = Some a"
  shows "messageBegin s m wa = (Some (suspension m), emit (React (m_id m) microphone) s)
       \<and> (case fst (transcribeVoiceMessage s' (a_url a) (voice w)) of
            Some t \<Rightarrow>
              replies (messageResume s' (suspension m) w)
                = replies s'
                    @ [(m_id m, [0xD83C, 0xDF99, 0xFE0F, 0x20, 0x2A, 0x22] @ t @ [0x22, 0x2A])]
              \<and> (if imageAttachments m = []
                 then turns (messageResume s' (suspension m) w)
                        = turns s' @ [(Plain t, delivery_mode s')]
                 else (\<exists>imgs. turns (messageResume s' (suspension m) w)
                               = turns s' @ [(Parts (TextPart t # imgs), delivery_mode s')]))
          | None \<Rightarrow>
              replies (messageResume s' (suspension m) w)
                = replies s'
                    @ [(m_id m, [0x274C] @ js '' Failed to transcribe voice message'')]
              \<and> turns (messageResume s' (suspension m) w) = turns s')"
proof
  show "messageBegin s m wa = (Some (suspension m), emit (React (m_id m) microphone) s)"
    using assms by (simp add: messageBegin_def suspension_def Let_def)
next
  obtain tr s1 where tr: "transcribeVoiceMessage s' (a_url a) (voice w) = (tr, s1)"
    by (cases "transcribeVoiceMessage s' (a_url a) (voice w)")
  have f: "turns s1 = turns s'" "replies s1 = replies s'" "isAgentBusy s1 = isAgentBusy s'"
    using transcribe_frame [of s' "a_url a" "voice w"] tr by simp_all
  have m: "delivery_mode s1 = delivery_mode s'"
    using f by (simp add: delivery_mode_def)
  have p: "p_voice (suspension m) = Some a" "p_images (suspension m) = imageAttachments m"
    "p_message (suspension m) = m"
    using assms by (simp_all add: suspension_def)
  show "case fst (transcribeVoiceMessage s' (a_url a) (voice w)) of
            Some t \<Rightarrow>
              replies (messageResume s' (suspension m) w)
                = replies s'
                    @ [(m_id m, [0xD83C, 0xDF99, 0xFE0F, 0x20, 0x2A, 0x22] @ t @ [0x22, 0x2A])]
              \<and> (if imageAttachments m = []
                 then turns (messageResume s' (suspension m) w)
                        = turns s' @ [(Plain t, delivery_mode s')]
                 else (\<exists>imgs. turns (messageResume s' (suspension m) w)
                               = turns s' @ [(Parts (TextPart t # imgs), delivery_mode s')]))
          | None \<Rightarrow>
              replies (messageResume s' (suspension m) w)
                = replies s'
                    @ [(m_id m, [0x274C] @ js '' Failed to transcribe voice message'')]
              \<and> turns (messageResume s' (suspension m) w) = turns s'"
  proof (cases tr)
    case None
    then show ?thesis
      by (simp add: messageResume_def p tr truthy_opt_def f Let_def transcriptionError_def)
  next
    case (Some t)
    then have "truthy t"
      using transcribe_truthy [of s' "a_url a" "voice w" t] tr by simp
    then show ?thesis
      using Some
      by (auto simp: messageResume_def p tr truthy_opt_def f m Let_def deliverText_log
          deliverImages_log transcriptionEcho_text)
  qed
qed

text \<open>
  The voice note is heard as \<open>first\<close> (trimmed): the echo and the turn carry it. The
  recognition throws: the error reply, no turn.
\<close>

theorem voice_round_trip_witness:
  "accepts bound_state voice_note
   \<and> voiceAttachment voice_note = Some \<lparr>a_contentType = Some (js ''audio/ogg''), a_url = js ''u1''\<rparr>
   \<and> replies (messageCreate bound_state voice_note hears_first)
       = [(js ''M1'', [0xD83C, 0xDF99, 0xFE0F, 0x20, 0x2A, 0x22] @ js ''first'' @ [0x22, 0x2A])]
   \<and> turns (messageCreate bound_state voice_note hears_first)
       = [(Plain (js ''first''), Immediate)]
   \<and> replies (messageCreate bound_state voice_note hears_nothing)
       = [(js ''M1'', [0x274C] @ js '' Failed to transcribe voice message'')]
   \<and> turns (messageCreate bound_state voice_note hears_nothing) = []"
proof -
  define s0 where "s0 = emit (React (m_id voice_note) microphone) bound_state"
  define u1 where "u1 = \<lparr>a_contentType = Some (js ''audio/ogg''), a_url = js ''u1''\<rparr>"
  have a: "accepts bound_state voice_note"
    by (simp add: voice_note_def accepts_in_T1)
  have v: "voiceAttachment voice_note = Some u1"
    by (simp add: voiceAttachment_def voice_note_def message_in_T1_def isAudio_def js_def
        u1_def)
  have i: "imageAttachments voice_note = []"
    by (simp add: imageAttachments_def voice_note_def message_in_T1_def isImage_def js_def)
  have t1: "fst (transcribeVoiceMessage s0 (a_url u1) (voice hears_first))
              = Some (js ''first'')"
    by (simp add: transcribeVoiceMessage_def hears_first_def Let_def js_trim_def
        is_js_space_def truthy_def js_def)
  have t2: "fst (transcribeVoiceMessage s0 (a_url u1) (voice hears_nothing)) = None"
    by (simp add: transcribeVoiceMessage_def transcriptionFailed_def hears_nothing_def
        hears_first_def Let_def)
  have b: "replies s0 = []" "turns s0 = []" "delivery_mode s0 = Immediate"
    by (simp_all add: s0_def replies_def turns_def delivery_mode_def bound_state_def
        initial_state_def)
  have k: "m_id voice_note = js ''M1''"
    by (simp add: voice_note_def message_in_T1_def)
  note r1 = voice_round_trip [OF a v, where wa = hears_first and w = hears_first and s' = s0]
  note r2 = voice_round_trip [OF a v, where wa = hears_nothing and w = hears_nothing and s' = s0]
  have c1: "messageCreate bound_state voice_note hears_first
              = messageResume s0 (suspension voice_note) hears_first"
    using r1 by (simp add: messageCreate_def s0_def)
  have c2: "messageCreate bound_state voice_note hears_nothing
              = messageResume s0 (suspension voice_note) hears_nothing"
    using r2 by (simp add: messageCreate_def s0_def)
  have e1: "replies (messageResume s0 (suspension voice_note) hears_first)
              = [(m_id voice_note, [0xD83C, 0xDF99, 0xFE0F, 0x20, 0x2A, 0x22] @ js ''first'' @ [0x22, 0x2A])]
            \<and> turns (messageResume s0 (suspension voice_note) hears_first)
              = [(Plain (js ''first''), Immediate)]"
    using r1 by (simp add: t1 i b)
  have e2: "replies (messageResume s0 (suspension voice_note) hears_nothing)
              = [(m_id voice_note, [0x274C] @ js '' Failed to transcribe voice message'')]
            \<and> turns (messageResume s0 (suspension voice_note) hears_nothing) = []"
    using r2 by (simp add: t2 b)
  show ?thesis
    using a v e1 e2 unfolding c1 c2 k u1_def by (intro conjI) simp_all
qed

text \<open>
  C6, as the code has it. An accepted message with image attachments and no voice
  attachment. Its handler acknowledges it with a reaction and is suspended. When the
  handler resumes and none of the images downloads, whatever the state \<open>s'\<close> of that
  moment: if the message has no text, no turn is delivered; if it has a text, one turn
  is delivered, whose only part is that text. In both cases no reply is posted.
\<close>

theorem failed_images_keep_the_text:
  assumes "accepts s m" and "voiceAttachment m = None" and "imageAttachments m \<noteq> []"
    and "\<forall>a \<in> set (imageAttachments m). download_fails w (a_url a)"
  shows "messageBegin s m wa = (Some (suspension m), emit (React (m_id m) framed_picture) s)
       \<and> turns (messageResume s' (suspension m) w) =
           turns s' @ (if truthy (m_content m)
                       then [(Parts [TextPart (m_content m)], delivery_mode s')] else [])
       \<and> replies (messageResume s' (suspension m) w) = replies s'"
proof -
  have b: "messageBegin s m wa = (Some (suspension m), emit (React (m_id m) framed_picture) s)"
    using assms(1-3) by (simp add: messageBegin_def suspension_def Let_def)
  have r: "messageResume s' (suspension m) w
             = deliverImages s' (m_content m) (imageAttachments m) w"
    using assms(2,3) by (simp add: messageResume_def suspension_def Let_def)
  have "fst (downloadImages s' (imageAttachments m) w) = []"
    using assms(4) by (rule downloadImages_all_fail)
  then show ?thesis
    unfolding r using b by (simp add: deliverImages_log Let_def)
qed

text \<open>A picture without text whose download fails: no turn, no reply.\<close>

theorem failed_images_keep_the_text_witness:
  "accepts bound_state picture_alone
   \<and> voiceAttachment picture_alone = None
   \<and> imageAttachments picture_alone \<noteq> []
   \<and> download_fails hears_first (js ''u3'')
   \<and> turns (messageCreate bound_state picture_alone hears_first) = []
   \<and> replies (messageCreate bound_state picture_alone hears_first) = []"
proof -
  define s0 where "s0 = emit (React (m_id picture_alone) framed_picture) bound_state"
  have a: "accepts bound_state picture_alone"
    by (simp add: picture_alone_def accepts_in_T1)
  have v: "voiceAttachment picture_alone = None"
    by (simp add: voiceAttachment_def picture_alone_def message_in_T1_def)
  have i: "imageAttachments picture_alone
             = [\<lparr>a_contentType = Some (js ''image/png''), a_url = js ''u3''\<rparr>]"
    by (simp add: imageAttachments_def picture_alone_def message_in_T1_def isImage_def js_def)
  have n: "imageAttachments picture_alone \<noteq> []"
    by (simp add: i)
  have f: "download_fails hears_first (js ''u3'')"
    by (simp add: download_fails_def hears_first_def)
  have all: "\<forall>a \<in> set (imageAttachments picture_alone). download_fails hears_first (a_url a)"
    by (simp add: i f)
  have b: "replies s0 = []" "turns s0 = []" "\<not> truthy (m_content picture_alone)"
    by (simp_all add: s0_def replies_def turns_def bound_state_def initial_state_def
        picture_alone_def message_in_T1_def truthy_def)
  note r = failed_images_keep_the_text
             [OF a v n all, where wa = hears_first and s' = s0]
  have c: "messageCreate bound_state picture_alone hears_first
             = messageResume s0 (suspension picture_alone) hears_first"
    using r by (simp add: messageCreate_def s0_def)
  have e: "turns (messageResume s0 (suspension picture_alone) hears_first) = []
           \<and> replies (messageResume s0 (suspension picture_alone) hears_first) = []"
    using r by (simp add: b)
  show ?thesis
    using a v n f e unfolding c by (intro conjI) simp_all
qed

text \<open>
  The claim C6 itself fails: the picture with the text \<open>look\<close>, whose only image does
  not download (no image part is built), is delivered as a turn with the text part.
\<close>

theorem text_survives_failed_image:
  "accepts bound_state picture_with_text
   \<and> length (imageAttachments picture_with_text) = 1
   \<and> fst (downloadImages bound_state (imageAttachments picture_with_text) hears_first) = []
   \<and> turns (messageCreate bound_state picture_with_text hears_first)
       = [(Parts [TextPart (js ''look'')], Immediate)]"
proof -
  have a: "accepts bound_state picture_with_text"
    by (simp add: picture_with_text_def accepts_in_T1)
  have v: "voiceAttachment picture_with_text = None"
    by (simp add: voiceAttachment_def picture_with_text_def message_in_T1_def)
  have i: "imageAttachments picture_with_text
             = [\<lparr>a_contentType = Some (js ''image/png''), a_url = js ''u4''\<rparr>]"
    by (simp add: imageAttachments_def picture_with_text_def message_in_T1_def isImage_def
        js_def)
  have d: "fst (downloadImages s [\<lparr>a_contentType = Some (js ''image/png''), a_url = js ''u4''\<rparr>]
                  hears_first) = []" for s
    by (simp add: downloadImageAsBase64_def hears_first_def Let_def)
  have b: "turns bound_state = []" "\<not> isAgentBusy bound_state"
    "m_content picture_with_text = js ''look''" "truthy (js ''look'')"
    by (simp_all add: turns_def bound_state_def initial_state_def picture_with_text_def
        message_in_T1_def truthy_def js_def)
  have "messageCreate bound_state picture_with_text hears_first
          = deliverImages (emit (React (m_id picture_with_text) framed_picture) bound_state)
              (js ''look'') (imageAttachments picture_with_text) hears_first"
    using a v
    by (simp add: messageCreate_def messageBegin_def messageResume_def suspension_def Let_def i b)
  then have t: "turns (messageCreate bound_state picture_with_text hears_first)
               = [(Parts [TextPart (js ''look'')], Immediate)]"
    by (simp add: deliverImages_log i d b Let_def delivery_mode_def del: downloadImages.simps)
  have n: "length (imageAttachments picture_with_text) = 1"
    by (simp add: i)
  have z: "fst (downloadImages bound_state (imageAttachments picture_with_text) hears_first) = []"
    unfolding i by (rule d)
  from a n z t show ?thesis
    by (intro conjI)
qed

section \<open>Order of the turns\<close>

lemma turns_update [simp]:
  "turns (s\<lparr>isAgentBusy := b\<rparr>) = turns s"
  "turns (s\<lparr>threadAutoNamed := a\<rparr>) = turns s"
  "turns (s\<lparr>lastKnownSessionName := n\<rparr>) = turns s"
  "turns (s\<lparr>agentStartTime := t\<rparr>) = turns s"
  "turns (s\<lparr>threads := ts\<rparr>) = turns s"
  "turns (s\<lparr>watchedThreads := wt\<rparr>) = turns s"
  by (simp_all add: turns_def)

lemma turns_saveThreads [simp]: "turns (saveThreads s) = turns s"
  by (simp add: saveThreads_def turns_def emit_def)

lemma turns_rename: "turns (snd (renameCurrentThread s n w)) = turns s"
  by (auto simp: renameCurrentThread_def renameFailed_def Let_def split: fetched.splits)

lemma turns_generateThreadName: "turns (snd (generateThreadName s w)) = turns s"
  by (auto simp: generateThreadName_def Let_def split: attempt.splits)

lemma turns_autoRename: "turns (snd (autoRename s c w)) = turns s"
proof -
  obtain g s1 where g: "generateThreadName (s\<lparr>threadAutoNamed := True\<rparr>) (naming w) = (g, s1)"
    by (cases "generateThreadName (s\<lparr>threadAutoNamed := True\<rparr>) (naming w)")
  have "turns s1 = turns s"
    using turns_generateThreadName [of "s\<lparr>threadAutoNamed := True\<rparr>" "naming w"] g by simp
  then show ?thesis
    by (simp add: autoRename_def Let_def g turns_rename split: attempt.splits)
qed

lemma turns_tryExisting: "turns (snd (tryExistingThread s k t w)) = turns s"
  by (auto simp: tryExistingThread_def evictBinding_def Let_def split: fetched.splits)

lemma turns_createThread: "turns (snd (createThread s cfg k n fe w)) = turns s"
  by (auto simp: createThread_def createFailed_def recordBinding_def Let_def
      split: channel_kind.splits option.splits)

lemma turns_getOrCreateThread: "turns (snd (getOrCreateThread s c fe sn w)) = turns s"
proof -
  have "turns (snd (createThread (snd (tryExistingThread s k t w)) cfg k' n fe w)) = turns s"
    for k t cfg k' n
    by (simp add: turns_createThread turns_tryExisting)
  then show ?thesis
    by (auto simp: getOrCreateThread_def Let_def turns_createThread turns_tryExisting
        split: option.splits prod.splits)
       (metis snd_conv turns_tryExisting turns_createThread)+
qed

lemma turns_agent_end: "turns (agent_end s msgs c w) = turns s"
proof -
  obtain e s1 where a: "autoRename (s\<lparr>isAgentBusy := False\<rparr>) c w = (e, s1)"
    by (cases "autoRename (s\<lparr>isAgentBusy := False\<rparr>) c w")
  have t1: "turns s1 = turns s"
    using turns_autoRename [of "s\<lparr>isAgentBusy := False\<rparr>" c w] a by simp
  obtain r s2 where g: "getOrCreateThread s1 c None (session_name w) (resolve w) = (r, s2)"
    by (cases "getOrCreateThread s1 c None (session_name w) (resolve w)")
  have "turns s2 = turns s"
    using turns_getOrCreateThread [of s1 c None "session_name w" "resolve w"] g t1 by simp
  then show ?thesis
    using t1
    by (cases e)
       (auto simp: agent_end_def agent_end_handler_def a Let_def g split: option.splits)
qed

lemma turns_agent_start: "turns (agent_start s t) = turns s"
  by (simp add: agent_start_def turns_def)

lemma step_synchronous:
  assumes "waiting l = []" and "synchronous ev"
  shows "waiting (step l ev) = []
       \<and> turns (ext (step l ev)) = turns (ext l) @ turn_at_arrival (ext l) ev"
proof (cases ev)
  case (MessageArrives m w)
  then show ?thesis
    using assms
    by (auto simp: step_def synchronous_def turn_at_arrival_def messageBegin_def
        suspension_def Let_def deliverText_log)
next
  case (HandlerResumes i w)
  then show ?thesis
    using assms by (simp add: step_def turn_at_arrival_def)
next
  case (AgentStarts t)
  then show ?thesis
    using assms by (simp add: step_def turn_at_arrival_def turns_agent_start)
next
  case (AgentEnds msgs c w)
  then show ?thesis
    using assms by (simp add: step_def turn_at_arrival_def turns_agent_end)
qed

lemma run_snoc: "run l (evs @ [ev]) = step (run l evs) ev"
  by (simp add: run_def)

lemma turns_in_arrival_order_snoc:
  "turns_in_arrival_order l (evs @ [ev]) =
     turns_in_arrival_order l evs @ turn_at_arrival (ext (run l evs)) ev"
proof -
  define F where "F = (\<lambda>i. turn_at_arrival (ext (run l (take i (evs @ [ev])))) ((evs @ [ev]) ! i))"
  define G where "G = (\<lambda>i. turn_at_arrival (ext (run l (take i evs))) (evs ! i))"
  have whole: "turns_in_arrival_order l (evs @ [ev]) = concat (map F [0..<length evs]) @ F (length evs)"
    by (simp add: turns_in_arrival_order_def F_def)
  have init: "map F [0..<length evs] = map G [0..<length evs]"
    by (rule map_cong) (simp_all add: F_def G_def nth_append)
  have last: "F (length evs) = turn_at_arrival (ext (run l evs)) ev"
    by (simp add: F_def)
  have "turns_in_arrival_order l evs = concat (map G [0..<length evs])"
    by (simp add: turns_in_arrival_order_def G_def)
  then show ?thesis
    by (simp only: whole init last)
qed

lemma run_synchronous:
  assumes "waiting l = []" and "\<forall>ev \<in> set evs. synchronous ev"
  shows "waiting (run l evs) = []
       \<and> turns (ext (run l evs)) = turns (ext l) @ turns_in_arrival_order l evs"
  using assms(2)
proof (induction evs rule: rev_induct)
  case Nil
  then show ?case
    using assms(1) by (simp add: run_def turns_in_arrival_order_def)
next
  case (snoc ev evs)
  then have ih: "waiting (run l evs) = []"
    "turns (ext (run l evs)) = turns (ext l) @ turns_in_arrival_order l evs"
    by simp_all
  have "synchronous ev"
    using snoc.prems by simp
  with ih(1) have "waiting (step (run l evs) ev) = []
       \<and> turns (ext (step (run l evs) ev))
           = turns (ext (run l evs)) @ turn_at_arrival (ext (run l evs)) ev"
    by (rule step_synchronous)
  then show ?case
    by (simp add: run_snoc turns_in_arrival_order_snoc ih(2))
qed

lemma messageResume_turn:
  "turns (messageResume s p w) = turns s
   \<or> (\<exists>x. turns (messageResume s p w) = turns s @ [(x, delivery_mode s)])"
proof (cases "p_voice p")
  case None
  then show ?thesis
    by (auto simp: messageResume_def Let_def deliverText_log deliverImages_log)
next
  case (Some a)
  obtain tr s1 where tr: "transcribeVoiceMessage s (a_url a) (voice w) = (tr, s1)"
    by (cases "transcribeVoiceMessage s (a_url a) (voice w)")
  have f: "turns s1 = turns s" "isAgentBusy s1 = isAgentBusy s"
    using transcribe_frame [of s "a_url a" "voice w"] tr by simp_all
  have m: "delivery_mode s1 = delivery_mode s"
    using f by (simp add: delivery_mode_def)
  show ?thesis
    using Some
    by (auto simp: messageResume_def Let_def deliverText_log deliverImages_log tr f m)
qed

text \<open>
  C1, as the code has it. A turn is handed to the host when the handler of its message
  reaches the delivery, as a follow-up if the agent is busy at that moment and as a new
  turn otherwise; this holds for a handler that resumes after an \<^verbatim>\<open>await\<close> too.
  When no handler is suspended and every arriving message is a plain text (no voice
  attachment, no image), whatever the turns of the agent that start and end in between,
  the turns handed to the host are exactly those of the accepted, non-empty messages,
  with their text verbatim, in the order of arrival.
\<close>

theorem plain_turns_follow_arrival:
  assumes "waiting l = []" and "\<forall>ev \<in> set evs. synchronous ev"
  shows "turns (ext (run l evs)) = turns (ext l) @ turns_in_arrival_order l evs
       \<and> (turns (messageResume s p w) = turns s
          \<or> (\<exists>x. turns (messageResume s p w) = turns s @ [(x, delivery_mode s)]))"
  using run_synchronous [OF assms] messageResume_turn [of s p w] by simp

text \<open>
  Three typed messages, the second while the agent is busy: the three turns in the
  order of arrival, the second as a follow-up.
\<close>

theorem plain_turns_follow_arrival_witness:
  "waiting loop_start = []
   \<and> list_all synchronous chat_while_working
   \<and> turns (ext (run loop_start chat_while_working))
       = [(Plain (js ''second''), Immediate), (Plain (js ''third''), FollowUp),
          (Plain (js ''fourth''), Immediate)]"
proof -
  have a: "waiting loop_start = []"
    by (simp add: loop_start_def)
  have b: "list_all synchronous chat_while_working"
    by code_simp
  then have b': "\<forall>ev \<in> set chat_while_working. synchronous ev"
    by (simp add: list_all_iff)
  have c: "turns_in_arrival_order loop_start chat_while_working
             = [(Plain (js ''second''), Immediate), (Plain (js ''third''), FollowUp),
                (Plain (js ''fourth''), Immediate)]"
    by code_simp
  have d: "turns (ext loop_start) = []"
    by code_simp
  from plain_turns_follow_arrival [OF a b']
  have "turns (ext (run loop_start chat_while_working))
          = turns (ext loop_start) @ turns_in_arrival_order loop_start chat_while_working"
    by (rule conjunct1)
  then have "turns (ext (run loop_start chat_while_working))
          = [(Plain (js ''second''), Immediate), (Plain (js ''third''), FollowUp),
             (Plain (js ''fourth''), Immediate)]"
    by (simp add: c d)
  with a b show ?thesis
    by (intro conjI)
qed

text \<open>
  The claim C1 itself fails. A voice note arrives, then a typed message; both are
  accepted, the agent is idle throughout. The handler of the voice note is suspended at
  its first \<^verbatim>\<open>await\<close> when the typed message arrives, and the typed message is
  delivered at once: the host receives \<open>second\<close> before \<open>first\<close>. Had each
  handler run to its end before the next message, the order would be that of arrival.
\<close>

theorem typed_reply_overtakes_voice_note:
  "turns (ext (run loop_start overtaking))
     = [(Plain (js ''second''), Immediate), (Plain (js ''first''), Immediate)]
   \<and> turns (messageCreate (messageCreate bound_state voice_note hears_first)
        typed_reply hears_first)
     = [(Plain (js ''first''), Immediate), (Plain (js ''second''), Immediate)]"
  by code_simp

end
